theory Spec2Isabelle
  imports Complex_Main
begin

section \<open>Python values, dictionaries and errors\<close>

text \<open>
  The development embeds \<^verbatim>\<open>itirp_complete.py\<close>: the event store, the risk
  engine, the execution engine and the role check. Python floats are modelled as
  exact reals, dictionaries as insertion-ordered association lists with unique keys,
  exceptions as values of the type \<open>error\<close>. Objects that the program mutates
  through shared references (\<^verbatim>\<open>Position\<close> and \<^verbatim>\<open>Order\<close> instances) live
  in explicit stores, lists indexed by address, and dictionaries hold addresses.
\<close>

datatype pyval = PyNone | PyBool bool | PyInt int | PyFloat real | PyStr string
  | PyList "pyval list"

datatype error = ValueError | TypeError | Exception string | HTTPException nat string

type_synonym ('k, 'v) dict = "('k \<times> 'v) list"

type_synonym addr = nat

text \<open>\<^verbatim>\<open>d[k] = v\<close>: an existing key keeps its place, a new key goes last.\<close>

fun dict_set :: "'k \<Rightarrow> 'v \<Rightarrow> ('k, 'v) dict \<Rightarrow> ('k, 'v) dict" where
  "dict_set k v [] = [(k, v)]"
| "dict_set k v ((k', v') # d) =
     (if k = k' then (k, v) # d else (k', v') # dict_set k v d)"

definition dict_get :: "('k, 'v) dict \<Rightarrow> 'k \<Rightarrow> 'v option" where
  "dict_get d k = map_of d k"

definition dict_values :: "('k, 'v) dict \<Rightarrow> 'v list" where
  "dict_values d = map snd d"

text \<open>\<^verbatim>\<open>d[k].append(x)\<close> on a \<^verbatim>\<open>defaultdict(list)\<close>.\<close>

definition defaultdict_append :: "'k \<Rightarrow> 'v \<Rightarrow> ('k, 'v list) dict \<Rightarrow> ('k, 'v list) dict" where
  "defaultdict_append k x d =
     dict_set k ((case dict_get d k of None \<Rightarrow> [] | Some xs \<Rightarrow> xs) @ [x]) d"

text \<open>\<^verbatim>\<open>sep.join(xs)\<close>.\<close>

fun join :: "string \<Rightarrow> string list \<Rightarrow> string" where
  "join sep [] = []"
| "join sep [x] = x"
| "join sep (x # y # ys) = x @ sep @ join sep (y # ys)"

text \<open>\<^verbatim>\<open>max(xs, default=d)\<close>.\<close>

fun max_default :: "real list \<Rightarrow> real \<Rightarrow> real" where
  "max_default [] d = d"
| "max_default (x # xs) d = fold max xs x"

text \<open>
  A \<^verbatim>\<open>datetime\<close> is the number of microseconds since the epoch; \<^verbatim>\<open>.date()\<close>
  is the day number, and \<^verbatim>\<open>timedelta(seconds=n)\<close> is \<open>n\<close> million microseconds.
\<close>

type_synonym datetime = int

definition date :: "datetime \<Rightarrow> int" where
  "date t = t div 86400000000"

definition timedelta :: "int \<Rightarrow> int" where
  "timedelta seconds = seconds * 1000000"

section \<open>Configuration and constants\<close>

definition DEFAULT_MAX_POSITION_SIZE :: real where "DEFAULT_MAX_POSITION_SIZE = 1000000"
definition DEFAULT_MAX_DAILY_VOLUME :: real where "DEFAULT_MAX_DAILY_VOLUME = 10000000"
definition DEFAULT_MAX_NET_EXPOSURE :: real where "DEFAULT_MAX_NET_EXPOSURE = 5000000"
definition DEFAULT_MAX_GROSS_EXPOSURE :: real where "DEFAULT_MAX_GROSS_EXPOSURE = 15000000"

definition MAX_RETRY_ATTEMPTS :: nat where "MAX_RETRY_ATTEMPTS = 3"
definition CIRCUIT_BREAKER_THRESHOLD :: int where "CIRCUIT_BREAKER_THRESHOLD = 5"
definition CIRCUIT_BREAKER_TIMEOUT :: int where "CIRCUIT_BREAKER_TIMEOUT = 60"

section \<open>Enums and data models\<close>

datatype OrderSide = BUY | SELL

datatype OrderStatus = PENDING | RISK_CHECK | APPROVED | REJECTED | EXECUTING | EXECUTED
  | FAILED | CANCELLED

datatype EventType = ORDER_CREATED | RISK_CHECK_STARTED | RISK_CHECK_PASSED
  | RISK_CHECK_FAILED | EXECUTION_STARTED | EXECUTION_COMPLETED | EXECUTION_FAILED
  | ORDER_CANCELLED

datatype RiskViolationType = POSITION_LIMIT | DAILY_VOLUME_LIMIT | NET_EXPOSURE_LIMIT
  | GROSS_EXPOSURE_LIMIT | KILL_SWITCH_ACTIVE

datatype UserRole = TRADER | RISK_MANAGER | COMPLIANCE | ADMIN

fun OrderSide_value :: "OrderSide \<Rightarrow> string" where
  "OrderSide_value BUY = ''BUY''"
| "OrderSide_value SELL = ''SELL''"

fun RiskViolationType_value :: "RiskViolationType \<Rightarrow> string" where
  "RiskViolationType_value POSITION_LIMIT = ''POSITION_LIMIT''"
| "RiskViolationType_value DAILY_VOLUME_LIMIT = ''DAILY_VOLUME_LIMIT''"
| "RiskViolationType_value NET_EXPOSURE_LIMIT = ''NET_EXPOSURE_LIMIT''"
| "RiskViolationType_value GROSS_EXPOSURE_LIMIT = ''GROSS_EXPOSURE_LIMIT''"
| "RiskViolationType_value KILL_SWITCH_ACTIVE = ''KILL_SWITCH_ACTIVE''"

record OrderRequest =
  symbol :: string
  side :: OrderSide
  quantity :: real
  price :: real
  strategy :: string
  client_order_id :: "string option"

record OrderResponse =
  order_id :: string
  status :: OrderStatus
  correlation_id :: string
  timestamp :: datetime
  message :: "string option"

record RiskLimitsConfig =
  max_position_size :: real
  max_daily_volume :: real
  max_net_exposure :: real
  max_gross_exposure :: real
  kill_switch_enabled :: bool

record RiskMetrics =
  net_exposure :: real
  gross_exposure :: real
  daily_volume :: real
  total_positions :: nat
  largest_position :: real
  kill_switch_active :: bool

record Event =
  event_id :: string
  event_type :: EventType
  correlation_id :: string
  order_id :: string
  timestamp :: datetime
  payload :: "(string, pyval) dict"
  user_id :: "string option"

record Order =
  order_id :: string
  correlation_id :: string
  symbol :: string
  side :: OrderSide
  quantity :: real
  price :: real
  strategy :: string
  status :: OrderStatus
  created_at :: datetime
  user_id :: string
  client_order_id :: "string option"
  executed_quantity :: real
  executed_price :: "real option"
  rejection_reason :: "string option"
  retry_count :: nat

definition notional_value :: "Order \<Rightarrow> real" where
  "notional_value order = Order.quantity order * Order.price order"

record Position =
  symbol :: string
  quantity :: real
  average_price :: real
  realized_pnl :: real

record RiskCheckResult =
  passed :: bool
  violations :: "RiskViolationType list"
  message :: string

section \<open>The system state\<close>

text \<open>
  One record holds the module-level singletons and the environment they read.
  The environment fields are the sources of nondeterminism: the successive readings
  of \<^verbatim>\<open>datetime.utcnow()\<close>, the successive results of \<^verbatim>\<open>uuid.uuid4()\<close>
  and of \<^verbatim>\<open>random.random()\<close>, each with the count of readings made so far, and
  the two library functions used by the idempotency key (\<^verbatim>\<open>hashlib.sha256\<close>
  and the formatting of a float). Every operation runs to completion before the next
  one starts; the interleaving of coroutines at \<^verbatim>\<open>await\<close> is not modelled.
\<close>

record system =
  clock :: "nat \<Rightarrow> datetime"
  clock_reads :: nat
  uuids :: "nat \<Rightarrow> string"
  uuid_draws :: nat
  randoms :: "nat \<Rightarrow> real"
  random_draws :: nat
  sha256_hexdigest :: "string \<Rightarrow> string"
  float_str :: "real \<Rightarrow> string"
  \<comment> \<open>\<^verbatim>\<open>EventStore\<close>\<close>
  events :: "Event list"
  events_by_correlation :: "(string, Event list) dict"
  events_by_order :: "(string, Event list) dict"
  \<comment> \<open>\<^verbatim>\<open>RiskEngine\<close>; \<open>position_objs\<close> is the store of \<^verbatim>\<open>Position\<close> objects\<close>
  config :: RiskLimitsConfig
  positions :: "(string, addr) dict"
  position_objs :: "Position list"
  daily_volume :: real
  daily_volume_reset :: datetime
  \<comment> \<open>\<^verbatim>\<open>ExecutionEngine\<close>; \<open>order_objs\<close> is the store of \<^verbatim>\<open>Order\<close> objects,
      \<open>tasks\<close> the executions handed to \<^verbatim>\<open>asyncio.create_task\<close>\<close>
  orders :: "(string, addr) dict"
  order_objs :: "Order list"
  execution_keys :: "string set"
  circuit_breaker_failures :: int
  circuit_breaker_open_until :: "datetime option"
  tasks :: "addr list"

definition utcnow :: "system \<Rightarrow> datetime \<times> system" where
  "utcnow s = (clock s (clock_reads s), s\<lparr>clock_reads := Suc (clock_reads s)\<rparr>)"

definition uuid4 :: "system \<Rightarrow> string \<times> system" where
  "uuid4 s = (uuids s (uuid_draws s), s\<lparr>uuid_draws := Suc (uuid_draws s)\<rparr>)"

definition random_random :: "system \<Rightarrow> real \<times> system" where
  "random_random s = (randoms s (random_draws s), s\<lparr>random_draws := Suc (random_draws s)\<rparr>)"

text \<open>\<^verbatim>\<open>random.uniform(a, b)\<close> is \<^verbatim>\<open>a + (b - a) * random()\<close>.\<close>

definition random_uniform :: "real \<Rightarrow> real \<Rightarrow> system \<Rightarrow> real \<times> system" where
  "random_uniform a b s = (let (r, s1) = random_random s in (a + (b - a) * r, s1))"

section \<open>Event store\<close>

definition event_store_append :: "Event \<Rightarrow> system \<Rightarrow> system" where
  "event_store_append event s =
     s\<lparr>events := events s @ [event],
       events_by_correlation :=
         defaultdict_append (Event.correlation_id event) event (events_by_correlation s),
       events_by_order :=
         defaultdict_append (Event.order_id event) event (events_by_order s)\<rparr>"

text \<open>
  Every \<^verbatim>\<open>await self.event_store.append(Event(event_id=str(uuid.uuid4()), ...,
  timestamp=datetime.utcnow(), ...))\<close> of the source draws a uuid, reads the clock and
  appends; \<open>emit\<close> is that sequence.
\<close>

definition emit ::
  "EventType \<Rightarrow> string \<Rightarrow> string \<Rightarrow> (string, pyval) dict \<Rightarrow> string option \<Rightarrow> system \<Rightarrow> system"
  where
  "emit etype cid oid pl uid s =
     (let (eid, s1) = uuid4 s;
          (ts, s2) = utcnow s1
      in event_store_append
           \<lparr>event_id = eid, event_type = etype, Event.correlation_id = cid,
            Event.order_id = oid, Event.timestamp = ts, payload = pl,
            Event.user_id = uid\<rparr> s2)"

definition get_by_order :: "string \<Rightarrow> system \<Rightarrow> Event list" where
  "get_by_order oid s = (case dict_get (events_by_order s) oid of None \<Rightarrow> [] | Some es \<Rightarrow> es)"

definition get_by_correlation :: "string \<Rightarrow> system \<Rightarrow> Event list" where
  "get_by_correlation cid s =
     (case dict_get (events_by_correlation s) cid of None \<Rightarrow> [] | Some es \<Rightarrow> es)"

section \<open>Risk engine\<close>

definition reset_daily_volume_if_needed :: "system \<Rightarrow> system" where
  "reset_daily_volume_if_needed s =
     (let (now, s1) = utcnow s
      in if date now > date (daily_volume_reset s1)
         then s1\<lparr>daily_volume := 0, daily_volume_reset := now\<rparr>
         else s1)"

text \<open>
  \<^verbatim>\<open>Position(symbol=..., quantity=0.0, average_price=0.0)\<close> allocates a new object:
  its address is the next free index of the store.
\<close>

definition new_Position :: "string \<Rightarrow> system \<Rightarrow> addr \<times> system" where
  "new_Position name s =
     (length (position_objs s),
      s\<lparr>position_objs := position_objs s @
          [\<lparr>Position.symbol = name, Position.quantity = 0, average_price = 0,
            realized_pnl = 0\<rparr>]\<rparr>)"

text \<open>
  \<^verbatim>\<open>self.positions.copy()\<close> copies the dictionary, not the objects: the copy holds
  the same addresses. The assignment to \<^verbatim>\<open>projected[order.symbol].quantity\<close>
  writes to the object at that address.
\<close>

definition calculate_projected_positions :: "Order \<Rightarrow> system \<Rightarrow> (string, addr) dict \<times> system" where
  "calculate_projected_positions order s =
     (let projected = positions s;
          (projected, a, s1) =
            (case dict_get projected (Order.symbol order) of
               None \<Rightarrow>
                 (let (a, s1) = new_Position (Order.symbol order) s
                  in (dict_set (Order.symbol order) a projected, a, s1))
             | Some a \<Rightarrow> (projected, a, s));
          position = position_objs s1 ! a;
          quantity_delta =
            (if Order.side order = BUY then Order.quantity order else - Order.quantity order)
      in (projected,
          s1\<lparr>position_objs := (position_objs s1)
                [a := position\<lparr>Position.quantity := Position.quantity position + quantity_delta\<rparr>]\<rparr>))"

definition calculate_net_exposure :: "Position list \<Rightarrow> (string, addr) dict \<Rightarrow> real" where
  "calculate_net_exposure objs ps =
     sum_list (map (\<lambda>a. Position.quantity (objs ! a) * average_price (objs ! a)) (dict_values ps))"

definition calculate_gross_exposure :: "Position list \<Rightarrow> (string, addr) dict \<Rightarrow> real" where
  "calculate_gross_exposure objs ps =
     sum_list (map (\<lambda>a. \<bar>Position.quantity (objs ! a) * average_price (objs ! a)\<bar>) (dict_values ps))"

definition check_order :: "Order \<Rightarrow> string \<Rightarrow> system \<Rightarrow> RiskCheckResult \<times> system" where
  "check_order order cid s0 =
     (let s1 = reset_daily_volume_if_needed s0;
          s2 = emit RISK_CHECK_STARTED cid (Order.order_id order)
                 [(''order'', PyStr (Order.order_id order))] (Some (Order.user_id order)) s1
      in if kill_switch_enabled (config s2)
         then (\<lparr>passed = False, violations = [KILL_SWITCH_ACTIVE],
                 message = ''Kill switch is active - all trading halted''\<rparr>, s2)
         else
           (let notional = notional_value order;
                violations =
                  (if notional > max_position_size (config s2) then [POSITION_LIMIT] else []);
                violations = violations @
                  (if daily_volume s2 + notional > max_daily_volume (config s2)
                   then [DAILY_VOLUME_LIMIT] else []);
                (projected_positions, s3) = calculate_projected_positions order s2;
                net_exposure = calculate_net_exposure (position_objs s3) projected_positions;
                gross_exposure = calculate_gross_exposure (position_objs s3) projected_positions;
                violations = violations @
                  (if \<bar>net_exposure\<bar> > max_net_exposure (config s3)
                   then [NET_EXPOSURE_LIMIT] else []);
                violations = violations @
                  (if gross_exposure > max_gross_exposure (config s3)
                   then [GROSS_EXPOSURE_LIMIT] else []);
                passed = (length violations = 0);
                event_type = (if passed then RISK_CHECK_PASSED else RISK_CHECK_FAILED);
                s4 = emit event_type cid (Order.order_id order)
                       [(''passed'', PyBool passed),
                        (''violations'', PyList (map (PyStr \<circ> RiskViolationType_value) violations)),
                        (''net_exposure'', PyFloat net_exposure),
                        (''gross_exposure'', PyFloat gross_exposure)]
                       (Some (Order.user_id order)) s3;
                message =
                  (if passed then ''Risk check passed''
                   else ''Risk violations: '' @ join '', '' (map RiskViolationType_value violations))
            in (\<lparr>passed = passed, violations = violations, message = message\<rparr>, s4)))"

text \<open>
  \<^verbatim>\<open>update_position\<close> raises \<^verbatim>\<open>TypeError\<close> when it multiplies by an
  \<^verbatim>\<open>executed_price\<close> that is \<^verbatim>\<open>None\<close>; a position inserted before the raise
  stays.
\<close>

definition update_position :: "Order \<Rightarrow> system \<Rightarrow> (error + unit) \<times> system" where
  "update_position order s =
     (let (a, s1) =
            (case dict_get (positions s) (Order.symbol order) of
               None \<Rightarrow>
                 (let (a, s1) = new_Position (Order.symbol order) s
                  in (a, s1\<lparr>positions := dict_set (Order.symbol order) a (positions s1)\<rparr>))
             | Some a \<Rightarrow> (a, s));
          position = position_objs s1 ! a;
          quantity_delta =
            (if Order.side order = BUY then executed_quantity order else - executed_quantity order)
      in if Position.quantity position + quantity_delta \<noteq> 0
         then
           (case executed_price order of
              None \<Rightarrow> (Inl TypeError, s1)
            | Some ep \<Rightarrow>
                (let total_cost = Position.quantity position * average_price position
                                    + quantity_delta * ep;
                     position = position\<lparr>Position.quantity := Position.quantity position + quantity_delta\<rparr>;
                     position = position\<lparr>average_price := total_cost / Position.quantity position\<rparr>;
                     s2 = s1\<lparr>position_objs := (position_objs s1)[a := position]\<rparr>
                 in (Inr (), s2\<lparr>daily_volume := daily_volume s2 + notional_value order\<rparr>)))
         else
           (let position = position\<lparr>Position.quantity := 0, average_price := 0\<rparr>;
                s2 = s1\<lparr>position_objs := (position_objs s1)[a := position]\<rparr>
            in (Inr (), s2\<lparr>daily_volume := daily_volume s2 + notional_value order\<rparr>)))"

definition get_metrics :: "system \<Rightarrow> RiskMetrics \<times> system" where
  "get_metrics s0 =
     (let s = reset_daily_volume_if_needed s0;
          net = calculate_net_exposure (position_objs s) (positions s);
          gross = calculate_gross_exposure (position_objs s) (positions s);
          largest =
            max_default
              (map (\<lambda>a. \<bar>Position.quantity (position_objs s ! a) * average_price (position_objs s ! a)\<bar>)
                 (dict_values (positions s))) 0
      in (\<lparr>net_exposure = net, gross_exposure = gross, RiskMetrics.daily_volume = daily_volume s,
            total_positions = length (positions s), largest_position = largest,
            kill_switch_active = kill_switch_enabled (config s)\<rparr>, s))"

text \<open>
  Well-formed position state: the dictionary has unique keys, and it holds distinct
  addresses of allocated objects (a Python reference always points to an object, and
  the program stores each \<^verbatim>\<open>Position\<close> it creates under one key only).
\<close>

definition wf_positions :: "system \<Rightarrow> bool" where
  "wf_positions s \<longleftrightarrow>
     distinct (map fst (positions s)) \<and> distinct (map snd (positions s)) \<and>
     list_all (\<lambda>a. a < length (position_objs s)) (map snd (positions s))"

section \<open>Execution engine\<close>

text \<open>
  The idempotency key. \<^verbatim>\<open>str(None)\<close> is \<^verbatim>\<open>None\<close>; the rendering of a float and
  the digest are the environment's.
\<close>

definition generate_execution_key :: "OrderRequest \<Rightarrow> string \<Rightarrow> system \<Rightarrow> string" where
  "generate_execution_key request uid s =
     (let key_data =
            uid @ '':'' @ OrderRequest.symbol request @ '':''
            @ OrderSide_value (OrderRequest.side request) @ '':''
            @ float_str s (OrderRequest.quantity request) @ '':''
            @ float_str s (OrderRequest.price request) @ '':''
            @ (case OrderRequest.client_order_id request of None \<Rightarrow> ''None'' | Some c \<Rightarrow> c)
      in sha256_hexdigest s key_data)"

text \<open>Attribute assignment on the \<^verbatim>\<open>Order\<close> object at an address.\<close>

definition order_update :: "addr \<Rightarrow> (Order \<Rightarrow> Order) \<Rightarrow> system \<Rightarrow> system" where
  "order_update a f s = s\<lparr>order_objs := (order_objs s)[a := f (order_objs s ! a)]\<rparr>"

text \<open>
  \<^verbatim>\<open>submit_order\<close>. The two uuids are drawn before the idempotency check, as in
  the source. \<^verbatim>\<open>asyncio.create_task(self._execute_order(order))\<close> records the
  order's address in \<open>tasks\<close>; the execution itself is \<open>execute_order\<close>, run later.
\<close>

definition submit_order ::
  "OrderRequest \<Rightarrow> string \<Rightarrow> system \<Rightarrow> (error + OrderResponse) \<times> system" where
  "submit_order request uid s0 =
     (let (cid, s1) = uuid4 s0;
          (oid, s2) = uuid4 s1;
          execution_key = generate_execution_key request uid s2
      in if execution_key \<in> execution_keys s2
         then (Inl (HTTPException 409 ''Duplicate order submission detected''), s2)
         else
           (let s3 = s2\<lparr>execution_keys := insert execution_key (execution_keys s2)\<rparr>;
                (now, s4) = utcnow s3;
                order =
                  \<lparr>Order.order_id = oid, Order.correlation_id = cid,
                   Order.symbol = OrderRequest.symbol request,
                   Order.side = OrderRequest.side request,
                   Order.quantity = OrderRequest.quantity request,
                   Order.price = OrderRequest.price request,
                   Order.strategy = OrderRequest.strategy request,
                   Order.status = PENDING, created_at = now, Order.user_id = uid,
                   Order.client_order_id = OrderRequest.client_order_id request,
                   executed_quantity = 0, executed_price = None, rejection_reason = None,
                   retry_count = 0\<rparr>;
                a = length (order_objs s4);
                s5 = s4\<lparr>order_objs := order_objs s4 @ [order]\<rparr>;
                s6 = s5\<lparr>orders := dict_set oid a (orders s5)\<rparr>;
                s7 = emit ORDER_CREATED cid oid
                       [(''symbol'', PyStr (Order.symbol order)),
                        (''side'', PyStr (OrderSide_value (Order.side order))),
                        (''quantity'', PyFloat (Order.quantity order)),
                        (''price'', PyFloat (Order.price order)),
                        (''strategy'', PyStr (Order.strategy order))]
                       (Some uid) s6;
                s8 = order_update a (\<lambda>ob. ob\<lparr>Order.status := RISK_CHECK\<rparr>) s7;
                (risk_result, s9) = check_order (order_objs s8 ! a) cid s8
            in if \<not> passed risk_result
               then
                 (let s10 = order_update a
                              (\<lambda>ob. ob\<lparr>Order.status := REJECTED,
                                        rejection_reason := Some (RiskCheckResult.message risk_result)\<rparr>) s9;
                      (ts, s11) = utcnow s10
                  in (Inr \<lparr>OrderResponse.order_id = oid, OrderResponse.status = REJECTED,
                            OrderResponse.correlation_id = cid, OrderResponse.timestamp = ts,
                            OrderResponse.message = Some (RiskCheckResult.message risk_result)\<rparr>, s11))
               else
                 (let s10 = order_update a (\<lambda>ob. ob\<lparr>Order.status := APPROVED\<rparr>) s9;
                      s11 = s10\<lparr>tasks := tasks s10 @ [a]\<rparr>;
                      (ts, s12) = utcnow s11
                  in (Inr \<lparr>OrderResponse.order_id = oid, OrderResponse.status = APPROVED,
                            OrderResponse.correlation_id = cid, OrderResponse.timestamp = ts,
                            OrderResponse.message =
                              Some ''Order approved and submitted for execution''\<rparr>, s12))))"

text \<open>
  The final-failure branch of the \<^verbatim>\<open>except\<close> clause of \<^verbatim>\<open>_execute_order\<close>.
  The reason is the f-string with \<^verbatim>\<open>MAX_RETRY_ATTEMPTS\<close>, which is 3.
\<close>

definition final_failure :: "addr \<Rightarrow> system \<Rightarrow> system" where
  "final_failure a s0 =
     (let s1 = order_update a
                 (\<lambda>ob. ob\<lparr>Order.status := FAILED,
                           rejection_reason := Some ''Execution failed after 3 attempts''\<rparr>) s0;
          s2 = s1\<lparr>circuit_breaker_failures := circuit_breaker_failures s1 + 1\<rparr>;
          s3 = (if circuit_breaker_failures s2 \<ge> CIRCUIT_BREAKER_THRESHOLD
                then (let (now, s) = utcnow s2
                      in s\<lparr>circuit_breaker_open_until :=
                             Some (now + timedelta CIRCUIT_BREAKER_TIMEOUT)\<rparr>)
                else s2);
          order = order_objs s3 ! a
      in emit EXECUTION_FAILED (Order.correlation_id order) (Order.order_id order)
           [(''reason'', (case rejection_reason order of None \<Rightarrow> PyNone | Some r \<Rightarrow> PyStr r)),
            (''retry_attempts'', PyInt (int (retry_count order)))]
           (Some (Order.user_id order)) s3)"

text \<open>
  One simulated attempt, the body of the \<^verbatim>\<open>try\<close>: \<open>None\<close> when it returns
  normally, \<open>Some e\<close> when it raises \<open>e\<close>, with the state reached.
\<close>

definition try_attempt :: "nat \<Rightarrow> addr \<Rightarrow> system \<Rightarrow> error option \<times> system" where
  "try_attempt attempt a s0 =
     (let (r, s1) = random_random s0
      in if r < 0.9
         then
           (let s2 = order_update a (\<lambda>ob. ob\<lparr>executed_quantity := Order.quantity ob\<rparr>) s1;
                (u, s3) = random_uniform (- 0.001) 0.001 s2;
                s4 = order_update a
                       (\<lambda>ob. ob\<lparr>executed_price := Some (Order.price ob * (1 + u))\<rparr>) s3;
                s5 = order_update a (\<lambda>ob. ob\<lparr>Order.status := EXECUTED\<rparr>) s4;
                (res, s6) = update_position (order_objs s5 ! a) s5
            in case res of
                 Inl e \<Rightarrow> (Some e, s6)
               | Inr _ \<Rightarrow>
                   (let order = order_objs s6 ! a
                    in (None,
                        emit EXECUTION_COMPLETED (Order.correlation_id order) (Order.order_id order)
                          [(''executed_quantity'', PyFloat (executed_quantity order)),
                           (''executed_price'',
                              (case executed_price order of None \<Rightarrow> PyNone | Some p \<Rightarrow> PyFloat p)),
                           (''retry_attempt'', PyInt (int attempt))]
                          (Some (Order.user_id order)) s6)))
         else (Some (Exception ''Simulated market rejection''), s1))"

text \<open>
  \<^verbatim>\<open>for attempt in range(MAX_RETRY_ATTEMPTS)\<close>, over the list of attempt numbers
  still to run. A normal return of the attempt leaves the function; after the final
  failure the loop goes on to the next attempt number, of which there is none.
\<close>

fun retry_loop :: "nat list \<Rightarrow> addr \<Rightarrow> system \<Rightarrow> system" where
  "retry_loop [] a s = s"
| "retry_loop (attempt # rest) a s0 =
     (case try_attempt attempt a s0 of
        (None, s1) \<Rightarrow> s1
      | (Some e, s1) \<Rightarrow>
          (let s2 = order_update a (\<lambda>ob. ob\<lparr>retry_count := retry_count ob + 1\<rparr>) s1
           in if attempt < MAX_RETRY_ATTEMPTS - 1
              then retry_loop rest a s2
              else retry_loop rest a (final_failure a s2)))"

text \<open>
  \<^verbatim>\<open>_execute_order\<close> on the \<^verbatim>\<open>Order\<close> object at address \<open>a\<close>. A
  \<^verbatim>\<open>datetime\<close> is always true in a condition, so the outer test is
  \<^verbatim>\<open>is not None\<close>.
\<close>

definition execute_order :: "addr \<Rightarrow> system \<Rightarrow> system" where
  "execute_order a s0 =
     (let (blocked, s1) =
            (case circuit_breaker_open_until s0 of
               None \<Rightarrow> (False, s0)
             | Some until \<Rightarrow>
                 (let (now, s) = utcnow s0
                  in if now < until
                     then (True,
                           order_update a
                             (\<lambda>ob. ob\<lparr>Order.status := FAILED,
                                       rejection_reason := Some ''Circuit breaker open''\<rparr>) s)
                     else (False,
                           s\<lparr>circuit_breaker_open_until := None,
                             circuit_breaker_failures := 0\<rparr>)))
      in if blocked then s1
         else
           (let s2 = order_update a (\<lambda>ob. ob\<lparr>Order.status := EXECUTING\<rparr>) s1;
                order = order_objs s2 ! a;
                s3 = emit EXECUTION_STARTED (Order.correlation_id order) (Order.order_id order)
                       [(''retry_attempt'', PyInt (int (retry_count order)))]
                       (Some (Order.user_id order)) s2
            in retry_loop [0..<MAX_RETRY_ATTEMPTS] a s3))"

section \<open>Authorisation\<close>

fun UserRole_value :: "UserRole \<Rightarrow> string" where
  "UserRole_value TRADER = ''TRADER''"
| "UserRole_value RISK_MANAGER = ''RISK_MANAGER''"
| "UserRole_value COMPLIANCE = ''COMPLIANCE''"
| "UserRole_value ADMIN = ''ADMIN''"

text \<open>
  \<^verbatim>\<open>UserRole(value)\<close>: the member with that value, \<^verbatim>\<open>ValueError\<close> when there
  is none.
\<close>

fun UserRole_of :: "pyval \<Rightarrow> error + UserRole" where
  "UserRole_of (PyStr v) =
     (if v = ''TRADER'' then Inr TRADER
      else if v = ''RISK_MANAGER'' then Inr RISK_MANAGER
      else if v = ''COMPLIANCE'' then Inr COMPLIANCE
      else if v = ''ADMIN'' then Inr ADMIN
      else Inl ValueError)"
| "UserRole_of _ = Inl ValueError"

definition dict_get_default :: "('k, 'v) dict \<Rightarrow> 'k \<Rightarrow> 'v \<Rightarrow> 'v" where
  "dict_get_default d k dflt = (case dict_get d k of None \<Rightarrow> dflt | Some v \<Rightarrow> v)"

definition role_hierarchy :: "(UserRole, int) dict" where
  "role_hierarchy = [(TRADER, 1), (RISK_MANAGER, 2), (COMPLIANCE, 3), (ADMIN, 4)]"

definition check_permission :: "pyval \<Rightarrow> UserRole \<Rightarrow> error + bool" where
  "check_permission user_role required_role =
     (case UserRole_of user_role of
        Inl e \<Rightarrow> Inl e
      | Inr r \<Rightarrow>
          (let user_level = dict_get_default role_hierarchy r 0;
               required_level = dict_get_default role_hierarchy required_role 0
           in Inr (user_level \<ge> required_level)))"

text \<open>
  \<^verbatim>\<open>require_role(required_role)\<close> returns the checker; applied to the token
  payload it returns the payload or raises. \<^verbatim>\<open>current_user.get("role")\<close> is
  \<^verbatim>\<open>None\<close> when the claim is missing.
\<close>

definition require_role :: "UserRole \<Rightarrow> (string, pyval) dict \<Rightarrow> error + (string, pyval) dict" where
  "require_role required_role current_user =
     (let user_role = dict_get_default current_user ''role'' PyNone
      in case check_permission user_role required_role of
           Inl e \<Rightarrow> Inl e
         | Inr ok \<Rightarrow>
             if \<not> ok
             then Inl (HTTPException 403
                    (''Insufficient permissions. Required: '' @ UserRole_value required_role))
             else Inr current_user)"

section \<open>Initial state and sample data\<close>

text \<open>
  The state after the module-level constructors: \<^verbatim>\<open>RiskEngine.__init__\<close> reads
  the clock once for \<^verbatim>\<open>daily_volume_reset\<close>.
\<close>

definition initial_system ::
  "(nat \<Rightarrow> datetime) \<Rightarrow> (nat \<Rightarrow> string) \<Rightarrow> (nat \<Rightarrow> real) \<Rightarrow> (string \<Rightarrow> string)
     \<Rightarrow> (real \<Rightarrow> string) \<Rightarrow> system" where
  "initial_system clk us rs sha fmt =
     \<lparr>clock = clk, clock_reads = 1, uuids = us, uuid_draws = 0, randoms = rs, random_draws = 0,
      sha256_hexdigest = sha, float_str = fmt,
      events = [], events_by_correlation = [], events_by_order = [],
      config = \<lparr>max_position_size = DEFAULT_MAX_POSITION_SIZE,
                max_daily_volume = DEFAULT_MAX_DAILY_VOLUME,
                max_net_exposure = DEFAULT_MAX_NET_EXPOSURE,
                max_gross_exposure = DEFAULT_MAX_GROSS_EXPOSURE,
                kill_switch_enabled = False\<rparr>,
      positions = [], position_objs = [], daily_volume = 0, daily_volume_reset = clk 0,
      orders = [], order_objs = [], execution_keys = {}, circuit_breaker_failures = 0,
      circuit_breaker_open_until = None, tasks = []\<rparr>"

text \<open>
  A sample environment: the clock advances one second per reading from the epoch,
  the n-th uuid is n+1 letters u, every random draw is 0 (each attempt succeeds).
\<close>

definition demo_system :: system where
  "demo_system =
     initial_system (\<lambda>n. int n * 1000000) (\<lambda>n. replicate (Suc n) CHR ''u'') (\<lambda>n. 0)
       (\<lambda>x. x) (\<lambda>r. ''f'')"

definition demo_order :: Order where
  "demo_order =
     \<lparr>Order.order_id = ''o1'', Order.correlation_id = ''c1'', Order.symbol = ''AAPL'',
      Order.side = BUY, Order.quantity = 10, Order.price = 150, Order.strategy = ''default'',
      Order.status = RISK_CHECK, created_at = 0, Order.user_id = ''trader'',
      Order.client_order_id = None, executed_quantity = 0, executed_price = None,
      rejection_reason = None, retry_count = 0\<rparr>"


definition demo_system_halted :: system where
  "demo_system_halted =
     demo_system\<lparr>config := (config demo_system)\<lparr>kill_switch_enabled := True\<rparr>\<rparr>"

text \<open>The values that \<^verbatim>\<open>UserRole(...)\<close> accepts.\<close>

definition known_roles :: "pyval set" where
  "known_roles = {PyStr ''TRADER'', PyStr ''RISK_MANAGER'', PyStr ''COMPLIANCE'', PyStr ''ADMIN''}"

definition demo_system_long :: system where
  "demo_system_long =
     demo_system\<lparr>positions := [(''AAPL'', 0)],
                 position_objs := [\<lparr>Position.symbol = ''AAPL'', Position.quantity = 100,
                                    average_price = 150, realized_pnl = 0\<rparr>]\<rparr>"

definition demo_big_order :: Order where
  "demo_big_order =
     demo_order\<lparr>Order.symbol := ''TSLA'', Order.quantity := 50000, Order.price := 250\<rparr>"

definition demo_filled_order :: Order where
  "demo_filled_order =
     demo_order\<lparr>Order.status := EXECUTED, executed_quantity := 10, executed_price := Some 151\<rparr>"

text \<open>A state whose clock is one day past the reset marker, with volume accumulated.\<close>

definition demo_system_next_day :: system where
  "demo_system_next_day =
     demo_system\<lparr>clock := (\<lambda>n. 86400000000 + int n), daily_volume := 500,
                 daily_volume_reset := 0\<rparr>"

section \<open>Specification-level notions\<close>

text \<open>
  The projection as the specification words it: every symbol keeps its current
  average price, the order's symbol gets the signed quantity added, and a symbol
  without a position enters with quantity the signed quantity and price 0.
\<close>

definition signed_quantity :: "Order \<Rightarrow> real" where
  "signed_quantity order =
     (if Order.side order = BUY then Order.quantity order else - Order.quantity order)"

definition projected_pairs :: "Order \<Rightarrow> system \<Rightarrow> (real \<times> real) list" where
  "projected_pairs order s =
     map (\<lambda>(name, a).
            (Position.quantity (position_objs s ! a)
               + (if name = Order.symbol order then signed_quantity order else 0),
             average_price (position_objs s ! a)))
         (positions s)
     @ (if dict_get (positions s) (Order.symbol order) = None
        then [(signed_quantity order, 0)] else [])"

definition projected_net :: "Order \<Rightarrow> system \<Rightarrow> real" where
  "projected_net order s = sum_list (map (\<lambda>(q, p). q * p) (projected_pairs order s))"

definition projected_gross :: "Order \<Rightarrow> system \<Rightarrow> real" where
  "projected_gross order s = sum_list (map (\<lambda>(q, p). \<bar>q * p\<bar>) (projected_pairs order s))"

text \<open>The position the engine holds for a symbol, read through the dictionary.\<close>

definition position_of :: "system \<Rightarrow> string \<Rightarrow> Position option" where
  "position_of s name = map_option (\<lambda>a. position_objs s ! a) (dict_get (positions s) name)"

text \<open>
  The position that \<open>update_position\<close> starts from: the one held, or the flat one
  it creates for a symbol seen for the first time.
\<close>

definition prior_position :: "system \<Rightarrow> string \<Rightarrow> Position" where
  "prior_position s name =
     (case position_of s name of
        None \<Rightarrow> \<lparr>Position.symbol = name, Position.quantity = 0, average_price = 0, realized_pnl = 0\<rparr>
      | Some p \<Rightarrow> p)"

definition signed_fill :: "Order \<Rightarrow> real" where
  "signed_fill order =
     (if Order.side order = BUY then executed_quantity order else - executed_quantity order)"

text \<open>
  The point of \<open>submit_order\<close> at which the risk check runs, for a submission that
  passed the idempotency gate: the address of the new order, its correlation id and
  the state handed to \<open>check_order\<close>.
\<close>

definition risk_check_point :: "OrderRequest \<Rightarrow> string \<Rightarrow> system \<Rightarrow> addr \<times> string \<times> system" where
  "risk_check_point request uid s0 =
     (let (cid, s1) = uuid4 s0;
          (oid, s2) = uuid4 s1;
          execution_key = generate_execution_key request uid s2;
          s3 = s2\<lparr>execution_keys := insert execution_key (execution_keys s2)\<rparr>;
          (now, s4) = utcnow s3;
          order =
            \<lparr>Order.order_id = oid, Order.correlation_id = cid,
             Order.symbol = OrderRequest.symbol request,
             Order.side = OrderRequest.side request,
             Order.quantity = OrderRequest.quantity request,
             Order.price = OrderRequest.price request,
             Order.strategy = OrderRequest.strategy request,
             Order.status = PENDING, created_at = now, Order.user_id = uid,
             Order.client_order_id = OrderRequest.client_order_id request,
             executed_quantity = 0, executed_price = None, rejection_reason = None,
             retry_count = 0\<rparr>;
          a = length (order_objs s4);
          s5 = s4\<lparr>order_objs := order_objs s4 @ [order]\<rparr>;
          s6 = s5\<lparr>orders := dict_set oid a (orders s5)\<rparr>;
          s7 = emit ORDER_CREATED cid oid
                 [(''symbol'', PyStr (Order.symbol order)),
                  (''side'', PyStr (OrderSide_value (Order.side order))),
                  (''quantity'', PyFloat (Order.quantity order)),
                  (''price'', PyFloat (Order.price order)),
                  (''strategy'', PyStr (Order.strategy order))]
                 (Some uid) s6;
          s8 = order_update a (\<lambda>ob. ob\<lparr>Order.status := RISK_CHECK\<rparr>) s7
      in (a, cid, s8))"

definition demo_big_request :: OrderRequest where
  "demo_big_request =
     \<lparr>OrderRequest.symbol = ''TSLA'', OrderRequest.side = BUY, OrderRequest.quantity = 50000,
      OrderRequest.price = 250, OrderRequest.strategy = ''default'',
      OrderRequest.client_order_id = None\<rparr>"

text \<open>
  The next three draws of \<^verbatim>\<open>random.random()\<close> are all rejections: a failing
  attempt consumes one draw, so these are the draws of the three attempts.
\<close>

definition all_attempts_fail :: "system \<Rightarrow> bool" where
  "all_attempts_fail s \<longleftrightarrow>
     \<not> randoms s (random_draws s) < 0.9 \<and> \<not> randoms s (random_draws s + 1) < 0.9
     \<and> \<not> randoms s (random_draws s + 2) < 0.9"

text \<open>
  The state after the admission check found the breaker's time elapsed: the clock has
  been read once, the breaker is cleared and the counter is zero.
\<close>

definition breaker_reset :: "system \<Rightarrow> system" where
  "breaker_reset s =
     s\<lparr>clock_reads := Suc (clock_reads s), circuit_breaker_open_until := None,
       circuit_breaker_failures := 0\<rparr>"

text \<open>The state after an attempt raised: one draw consumed, \<open>retry_count\<close> incremented.\<close>

definition failed_step :: "addr \<Rightarrow> system \<Rightarrow> system" where
  "failed_step a s =
     order_update a (\<lambda>ob. ob\<lparr>retry_count := retry_count ob + 1\<rparr>)
       (s\<lparr>random_draws := Suc (random_draws s)\<rparr>)"





section \<open>Order table invariants\<close>

text \<open>
  The idempotency fingerprint of a stored order: the key computed from the fields the
  order took from its request and from the submitting user.
\<close>

definition order_fingerprint :: "Order \<Rightarrow> system \<Rightarrow> string" where
  "order_fingerprint ob s =
     generate_execution_key
       \<lparr>OrderRequest.symbol = Order.symbol ob, OrderRequest.side = Order.side ob,
        OrderRequest.quantity = Order.quantity ob, OrderRequest.price = Order.price ob,
        OrderRequest.strategy = Order.strategy ob,
        OrderRequest.client_order_id = Order.client_order_id ob\<rparr>
       (Order.user_id ob) s"



text \<open>
  \<open>same_orders s s'\<close>: from \<open>s\<close> to \<open>s'\<close> the order table, the fingerprints of
  the stored objects, the key set and the environment's functions are unchanged, and no
  uuid draw is undone.
\<close>

definition same_orders :: "system \<Rightarrow> system \<Rightarrow> bool" where
  "same_orders s s' \<longleftrightarrow>
     orders s' = orders s \<and> length (order_objs s') = length (order_objs s)
     \<and> (\<forall>a. order_fingerprint (order_objs s' ! a) s' = order_fingerprint (order_objs s ! a) s)
     \<and> execution_keys s' = execution_keys s
     \<and> uuids s' = uuids s \<and> uuid_draws s \<le> uuid_draws s'
     \<and> sha256_hexdigest s' = sha256_hexdigest s \<and> float_str s' = float_str s"




section \<open>Frame lemmas\<close>

lemma config_emit: "config (emit t c oid pl u s) = config s"
  by (simp add: emit_def event_store_append_def uuid4_def utcnow_def)

lemma config_reset: "config (reset_daily_volume_if_needed s) = config s"
  by (simp add: reset_daily_volume_if_needed_def utcnow_def)

lemma position_objs_emit: "position_objs (emit t c oid pl u s) = position_objs s"
  by (simp add: emit_def event_store_append_def uuid4_def utcnow_def)

lemma position_objs_reset: "position_objs (reset_daily_volume_if_needed s) = position_objs s"
  by (simp add: reset_daily_volume_if_needed_def utcnow_def)

lemma positions_emit: "positions (emit t c oid pl u s) = positions s"
  by (simp add: emit_def event_store_append_def uuid4_def utcnow_def)

lemma positions_reset: "positions (reset_daily_volume_if_needed s) = positions s"
  by (simp add: reset_daily_volume_if_needed_def utcnow_def)

lemma events_emit:
  "events (emit t c oid pl u s) =
     events s @ [\<lparr>event_id = uuids s (uuid_draws s), event_type = t, Event.correlation_id = c,
                  Event.order_id = oid, Event.timestamp = clock s (clock_reads s), payload = pl,
                  Event.user_id = u\<rparr>]"
  by (simp add: emit_def event_store_append_def uuid4_def utcnow_def)

lemma events_reset: "events (reset_daily_volume_if_needed s) = events s"
  by (simp add: reset_daily_volume_if_needed_def utcnow_def)

section \<open>Kill switch\<close>

text \<open>
  C3: when the kill switch is enabled, \<open>check_order\<close> returns \<open>passed = False\<close>, the
  violations \<open>[KILL_SWITCH_ACTIVE]\<close> and the fixed message, whatever the order and the
  limits are. No limit check runs: the position objects and the positions dictionary
  are untouched, and the only event appended is \<open>RISK_CHECK_STARTED\<close>.
\<close>

theorem kill_switch_short_circuits:
  assumes "kill_switch_enabled (config s)"
  shows "fst (check_order order cid s) =
           \<lparr>passed = False, violations = [KILL_SWITCH_ACTIVE],
            message = ''Kill switch is active - all trading halted''\<rparr>
         \<and> position_objs (snd (check_order order cid s)) = position_objs s
         \<and> positions (snd (check_order order cid s)) = positions s
         \<and> map event_type (events (snd (check_order order cid s))) =
             map event_type (events s) @ [RISK_CHECK_STARTED]"
  using assms
  by (simp add: check_order_def Let_def config_emit config_reset position_objs_emit
      position_objs_reset positions_emit positions_reset events_emit events_reset)

theorem kill_switch_short_circuits_witness:
  "kill_switch_enabled (config demo_system_halted)
   \<and> fst (check_order demo_order ''c1'' demo_system_halted) =
           \<lparr>passed = False, violations = [KILL_SWITCH_ACTIVE],
            message = ''Kill switch is active - all trading halted''\<rparr>
   \<and> position_objs (snd (check_order demo_order ''c1'' demo_system_halted)) = []
   \<and> map event_type (events (snd (check_order demo_order ''c1'' demo_system_halted))) =
             [RISK_CHECK_STARTED]"
proof -
  have h: "kill_switch_enabled (config demo_system_halted)"
    by (simp add: demo_system_halted_def demo_system_def initial_system_def)
  show ?thesis
    using h kill_switch_short_circuits [OF h, of demo_order "''c1''"]
    by (simp add: demo_system_halted_def demo_system_def initial_system_def)
qed

section \<open>Role check\<close>

lemma UserRole_of_known: "(\<exists>r. UserRole_of v = Inr r) \<longleftrightarrow> v \<in> known_roles"
  by (cases v) (auto simp: known_roles_def)

lemma UserRole_of_unknown: "v \<notin> known_roles \<Longrightarrow> UserRole_of v = Inl ValueError"
  by (cases v) (auto simp: known_roles_def)

lemma role_hierarchy_total: "dict_get role_hierarchy r \<noteq> None"
  by (cases r) (simp_all add: role_hierarchy_def dict_get_def)

text \<open>
  C10: for a role value outside the four known strings, \<^verbatim>\<open>None\<close> for a missing
  claim included, \<open>check_permission\<close> raises \<open>ValueError\<close>, and \<open>require_role\<close>
  lets it through instead of answering 403. On the four known strings it returns the
  comparison of the levels. Whenever the conversion succeeds the role is a key of the
  hierarchy with a level of at least 1, so the default level 0 is never used for the
  user's role.
\<close>

theorem check_permission_unknown_role:
  "(user_role \<notin> known_roles \<longrightarrow>
      check_permission user_role required_role = Inl ValueError
      \<and> (dict_get_default current_user ''role'' PyNone = user_role \<longrightarrow>
           require_role required_role current_user = Inl ValueError))
   \<and> (user_role \<in> known_roles \<longrightarrow>
        (\<exists>r. UserRole_of user_role = Inr r
           \<and> check_permission user_role required_role =
               Inr (dict_get_default role_hierarchy r 0
                      \<ge> dict_get_default role_hierarchy required_role 0)))
   \<and> (\<forall>r. UserRole_of user_role = Inr r \<longrightarrow>
          dict_get role_hierarchy r \<noteq> None \<and> dict_get_default role_hierarchy r 0 \<ge> 1)"
proof (intro conjI impI allI)
  assume u: "user_role \<notin> known_roles"
  show c: "check_permission user_role required_role = Inl ValueError"
    by (simp add: check_permission_def UserRole_of_unknown [OF u])
  assume "dict_get_default current_user ''role'' PyNone = user_role"
  then show "require_role required_role current_user = Inl ValueError"
    using c by (simp add: require_role_def)
next
  assume "user_role \<in> known_roles"
  then obtain r where "UserRole_of user_role = Inr r"
    using UserRole_of_known by blast
  then show "\<exists>r. UserRole_of user_role = Inr r
           \<and> check_permission user_role required_role =
               Inr (dict_get_default role_hierarchy r 0
                      \<ge> dict_get_default role_hierarchy required_role 0)"
    by (simp add: check_permission_def)
next
  fix r
  show "dict_get role_hierarchy r \<noteq> None" by (rule role_hierarchy_total)
  show "dict_get_default role_hierarchy r 0 \<ge> 1"
    by (cases r) (simp_all add: role_hierarchy_def dict_get_def dict_get_default_def)
qed

theorem check_permission_unknown_role_witness:
  "PyStr ''GUEST'' \<notin> known_roles \<and> PyNone \<notin> known_roles
   \<and> check_permission (PyStr ''GUEST'') TRADER = Inl ValueError
   \<and> require_role TRADER [(''sub'', PyStr ''bob'')] = Inl ValueError
   \<and> PyStr ''ADMIN'' \<in> known_roles
   \<and> check_permission (PyStr ''ADMIN'') RISK_MANAGER = Inr True
   \<and> UserRole_of (PyStr ''TRADER'') = Inr TRADER \<and> dict_get role_hierarchy TRADER = Some 1"
  using check_permission_unknown_role [of "PyStr ''GUEST''" TRADER "[]"]
    check_permission_unknown_role [of PyNone TRADER "[(''sub'', PyStr ''bob'')]"]
    check_permission_unknown_role [of "PyStr ''ADMIN''" RISK_MANAGER "[]"]
    check_permission_unknown_role [of "PyStr ''TRADER''" TRADER "[]"]
  by (simp add: known_roles_def dict_get_default_def dict_get_def role_hierarchy_def)

section \<open>Projection and limit checks\<close>

lemma dict_set_absent: "dict_get d k = None \<Longrightarrow> dict_set k v d = d @ [(k, v)]"
  by (induction d) (auto simp: dict_get_def split: if_splits)

lemma dict_get_addr_iff:
  assumes "distinct (map fst d)" "distinct (map snd d)" "dict_get d k = Some a" "(n, b) \<in> set d"
  shows "b = a \<longleftrightarrow> n = k"
proof
  assume "b = a"
  have "(k, a) \<in> set d" using assms(3) by (simp add: dict_get_def map_of_SomeD)
  with assms(2,4) \<open>b = a\<close> show "n = k"
    by (metis distinct_map inj_on_def snd_conv fst_conv)
next
  assume "n = k"
  with assms(1,4) have "map_of d k = Some b" by simp
  with assms(3) show "b = a" by (simp add: dict_get_def)
qed

lemma dict_get_None_notin: "dict_get d k = None \<Longrightarrow> (n, b) \<in> set d \<Longrightarrow> n \<noteq> k"
  by (auto simp: dict_get_def map_of_eq_None_iff image_iff)

lemma projected_exposures:
  assumes wf: "wf_positions s"
    and cp: "calculate_projected_positions order s = (proj, s')"
  shows "map (\<lambda>a. (Position.quantity (position_objs s' ! a), average_price (position_objs s' ! a)))
           (dict_values proj) = projected_pairs order s"
proof (cases "dict_get (positions s) (Order.symbol order)")
  case None
  have in_range: "\<And>n b. (n, b) \<in> set (positions s) \<Longrightarrow> b < length (position_objs s)"
    using wf by (auto simp: wf_positions_def list_all_iff)
  from None cp have proj: "proj = positions s @ [(Order.symbol order, length (position_objs s))]"
    and objs: "position_objs s' = position_objs s @
        [\<lparr>Position.symbol = Order.symbol order, Position.quantity = 0 + signed_quantity order,
          average_price = 0, realized_pnl = 0\<rparr>]"
    by (auto simp: calculate_projected_positions_def new_Position_def Let_def dict_set_absent
        signed_quantity_def)
  show ?thesis
    using None in_range dict_get_None_notin [OF None]
    by (auto simp: proj objs projected_pairs_def dict_values_def nth_append)
next
  case (Some a)
  have in_range: "\<And>n b. (n, b) \<in> set (positions s) \<Longrightarrow> b < length (position_objs s)"
    using wf by (auto simp: wf_positions_def list_all_iff)
  have d: "distinct (map fst (positions s))" "distinct (map snd (positions s))"
    using wf by (simp_all add: wf_positions_def)
  from Some cp have proj: "proj = positions s"
    and objs: "position_objs s' = (position_objs s)
        [a := (position_objs s ! a)\<lparr>Position.quantity :=
                 Position.quantity (position_objs s ! a) + signed_quantity order\<rparr>]"
    by (auto simp: calculate_projected_positions_def Let_def signed_quantity_def)
  have pt: "(Position.quantity (position_objs s' ! b), average_price (position_objs s' ! b)) =
      (Position.quantity (position_objs s ! b)
         + (if n = Order.symbol order then signed_quantity order else 0),
       average_price (position_objs s ! b))" if m: "(n, b) \<in> set (positions s)" for n b
  proof (cases "b = a")
    case True
    with dict_get_addr_iff [OF d Some m] in_range [OF m] show ?thesis
      by (simp add: objs)
  next
    case False
    with dict_get_addr_iff [OF d Some m] show ?thesis
      by (simp add: objs)
  qed
  have "map (\<lambda>a. (Position.quantity (position_objs s' ! a), average_price (position_objs s' ! a)))
           (map snd (positions s)) =
        map (\<lambda>(name, a).
            (Position.quantity (position_objs s ! a)
               + (if name = Order.symbol order then signed_quantity order else 0),
             average_price (position_objs s ! a))) (positions s)"
    using pt by auto
  then show ?thesis
    using Some by (simp add: proj projected_pairs_def dict_values_def)
qed

lemma net_gross_projected:
  assumes "wf_positions s" "calculate_projected_positions order s = (proj, s')"
  shows "calculate_net_exposure (position_objs s') proj = projected_net order s"
    and "calculate_gross_exposure (position_objs s') proj = projected_gross order s"
proof -
  note e = projected_exposures [OF assms, symmetric]
  show "calculate_net_exposure (position_objs s') proj = projected_net order s"
    by (simp add: calculate_net_exposure_def projected_net_def e comp_def)
  show "calculate_gross_exposure (position_objs s') proj = projected_gross order s"
    by (simp add: calculate_gross_exposure_def projected_gross_def e comp_def)
qed

lemma daily_volume_emit: "daily_volume (emit t c oid pl u s) = daily_volume s"
  by (simp add: emit_def event_store_append_def uuid4_def utcnow_def)

lemma wf_positions_cong:
  "positions s' = positions s \<Longrightarrow> position_objs s' = position_objs s \<Longrightarrow>
     wf_positions s' = wf_positions s"
  by (simp add: wf_positions_def)

lemma projected_pairs_cong:
  "positions s' = positions s \<Longrightarrow> position_objs s' = position_objs s \<Longrightarrow>
     projected_pairs order s' = projected_pairs order s"
  by (simp add: projected_pairs_def)

lemma config_projected: "config (snd (calculate_projected_positions order s)) = config s"
  by (simp add: calculate_projected_positions_def new_Position_def Let_def split: option.split)

lemma check_order_violations:
  assumes wf: "wf_positions s" and ks: "\<not> kill_switch_enabled (config s)"
  shows "violations (fst (check_order order cid s)) =
      (if notional_value order > max_position_size (config s) then [POSITION_LIMIT] else [])
    @ (if daily_volume (reset_daily_volume_if_needed s) + notional_value order
            > max_daily_volume (config s)
       then [DAILY_VOLUME_LIMIT] else [])
    @ (if \<bar>projected_net order s\<bar> > max_net_exposure (config s)
       then [NET_EXPOSURE_LIMIT] else [])
    @ (if projected_gross order s > max_gross_exposure (config s)
       then [GROSS_EXPOSURE_LIMIT] else [])"
proof -
  define s2 where "s2 = emit RISK_CHECK_STARTED cid (Order.order_id order)
      [(''order'', PyStr (Order.order_id order))] (Some (Order.user_id order))
      (reset_daily_volume_if_needed s)"
  obtain proj s3 where cp: "calculate_projected_positions order s2 = (proj, s3)"
    by (cases "calculate_projected_positions order s2")
  have c2: "config s2 = config s"
    by (simp add: s2_def config_emit config_reset)
  have p2: "positions s2 = positions s" "position_objs s2 = position_objs s"
    by (simp_all add: s2_def positions_emit positions_reset position_objs_emit position_objs_reset)
  have d2: "daily_volume s2 = daily_volume (reset_daily_volume_if_needed s)"
    by (simp add: s2_def daily_volume_emit)
  have wf2: "wf_positions s2"
    using wf wf_positions_cong [OF p2] by simp
  have c3: "config s3 = config s"
    using config_projected [of order s2] cp c2 by simp
  have pp: "projected_pairs order s2 = projected_pairs order s"
    by (rule projected_pairs_cong [OF p2])
  have n: "calculate_net_exposure (position_objs s3) proj = projected_net order s"
    using net_gross_projected(1) [OF wf2 cp] pp by (simp add: projected_net_def)
  have g: "calculate_gross_exposure (position_objs s3) proj = projected_gross order s"
    using net_gross_projected(2) [OF wf2 cp] pp by (simp add: projected_gross_def)
  show ?thesis
    using ks
    by (simp add: check_order_def Let_def s2_def [symmetric] cp c2 c3 d2 n g)
qed

lemma dict_get_append_new: "dict_get d k = None \<Longrightarrow> dict_get (d @ [(k, v)]) k' = (if k' = k then Some v else dict_get d k')"
  by (auto simp: dict_get_def map_add_def split: option.splits)

lemma update_position_result:
  assumes wf: "wf_positions s" and ep: "executed_price order = Some ep"
  shows "fst (update_position order s) = Inr ()
     \<and> position_of (snd (update_position order s)) (Order.symbol order) =
         Some (if Position.quantity (prior_position s (Order.symbol order)) + signed_fill order \<noteq> 0
               then (prior_position s (Order.symbol order))
                      \<lparr>Position.quantity :=
                         Position.quantity (prior_position s (Order.symbol order)) + signed_fill order,
                       average_price :=
                         (Position.quantity (prior_position s (Order.symbol order))
                            * average_price (prior_position s (Order.symbol order))
                          + signed_fill order * ep)
                         / (Position.quantity (prior_position s (Order.symbol order)) + signed_fill order)\<rparr>
               else (prior_position s (Order.symbol order))
                      \<lparr>Position.quantity := 0, average_price := 0\<rparr>)
     \<and> daily_volume (snd (update_position order s)) =
         daily_volume s + Order.quantity order * Order.price order"
proof (cases "dict_get (positions s) (Order.symbol order)")
  case None
  then show ?thesis
    using ep
    by (simp add: update_position_def new_Position_def Let_def dict_set_absent position_of_def
        prior_position_def signed_fill_def notional_value_def dict_get_append_new)
next
  case (Some a)
  have "a < length (position_objs s)"
    using wf Some by (auto simp: wf_positions_def list_all_iff dict_get_def dest!: map_of_SomeD)
  then show ?thesis
    using ep Some
    by (simp add: update_position_def Let_def position_of_def
        prior_position_def signed_fill_def notional_value_def)
qed


lemma order_objs_emit: "order_objs (emit t c oid pl u s) = order_objs s"
  by (simp add: emit_def event_store_append_def uuid4_def utcnow_def)

lemma order_objs_reset: "order_objs (reset_daily_volume_if_needed s) = order_objs s"
  by (simp add: reset_daily_volume_if_needed_def utcnow_def)

lemma order_objs_projected:
  "order_objs (snd (calculate_projected_positions order s)) = order_objs s"
  by (simp add: calculate_projected_positions_def new_Position_def Let_def split: option.split)

lemma order_objs_check_order: "order_objs (snd (check_order order cid s)) = order_objs s"
  by (simp add: check_order_def Let_def split_beta order_objs_emit order_objs_reset
      order_objs_projected)

lemma submit_order_after_check:
  assumes "generate_execution_key request uid s \<notin> execution_keys s"
  shows "submit_order request uid s =
     (let (a, cid, s8) = risk_check_point request uid s;
          (risk_result, s9) = check_order (order_objs s8 ! a) cid s8;
          oid = uuids s (Suc (uuid_draws s))
      in if \<not> passed risk_result
         then
           (let s10 = order_update a
                        (\<lambda>ob. ob\<lparr>Order.status := REJECTED,
                                  rejection_reason := Some (RiskCheckResult.message risk_result)\<rparr>) s9;
                (ts, s11) = utcnow s10
            in (Inr \<lparr>OrderResponse.order_id = oid, OrderResponse.status = REJECTED,
                      OrderResponse.correlation_id = cid, OrderResponse.timestamp = ts,
                      OrderResponse.message = Some (RiskCheckResult.message risk_result)\<rparr>, s11))
         else
           (let s10 = order_update a (\<lambda>ob. ob\<lparr>Order.status := APPROVED\<rparr>) s9;
                s11 = s10\<lparr>tasks := tasks s10 @ [a]\<rparr>;
                (ts, s12) = utcnow s11
            in (Inr \<lparr>OrderResponse.order_id = oid, OrderResponse.status = APPROVED,
                      OrderResponse.correlation_id = cid, OrderResponse.timestamp = ts,
                      OrderResponse.message =
                        Some ''Order approved and submitted for execution''\<rparr>, s12)))"
proof -
  have k: "generate_execution_key request uid (s\<lparr>uuid_draws := Suc (Suc (uuid_draws s))\<rparr>)
      = generate_execution_key request uid s"
    by (simp add: generate_execution_key_def)
  show ?thesis
    using assms
    by (simp add: submit_order_def risk_check_point_def uuid4_def k Let_def split_beta)
qed

lemma check_order_message:
  assumes "\<not> kill_switch_enabled (config s)" "\<not> passed (fst (check_order order cid s))"
  shows "RiskCheckResult.message (fst (check_order order cid s)) =
     ''Risk violations: '' @
       join '', '' (map RiskViolationType_value (violations (fst (check_order order cid s))))"
  using assms
  by (simp add: check_order_def Let_def config_emit config_reset split_beta)

lemma check_order_passed:
  "\<not> kill_switch_enabled (config s) \<Longrightarrow>
     passed (fst (check_order order cid s)) = (violations (fst (check_order order cid s)) = [])"
  by (simp add: check_order_def Let_def config_emit config_reset split_beta)


lemma wf_demo_system_long: "wf_positions demo_system_long"
  by (simp add: wf_positions_def demo_system_long_def demo_system_def initial_system_def)

lemma config_demo_system_long: "config demo_system_long = config demo_system"
  by (simp add: demo_system_long_def)

lemma kill_switch_demo_system: "\<not> kill_switch_enabled (config demo_system)"
  by (simp add: demo_system_def initial_system_def)




section \<open>Side effects of the risk check\<close>

lemma positions_projected:
  "positions (snd (calculate_projected_positions order s)) = positions s"
  by (simp add: calculate_projected_positions_def new_Position_def Let_def split: option.split)

lemma positions_check_order: "positions (snd (check_order order cid s)) = positions s"
  by (simp add: check_order_def Let_def split_beta positions_emit positions_reset
      positions_projected)

lemma position_objs_projected_held:
  assumes "dict_get (positions s) (Order.symbol order) = Some a"
  shows "position_objs (snd (calculate_projected_positions order s)) =
     (position_objs s)[a := (position_objs s ! a)
        \<lparr>Position.quantity := Position.quantity (position_objs s ! a) + signed_quantity order\<rparr>]"
  using assms
  by (simp add: calculate_projected_positions_def Let_def signed_quantity_def)

lemma check_order_writes_through:
  assumes ks: "\<not> kill_switch_enabled (config s)"
    and held: "dict_get (positions s) (Order.symbol order) = Some a"
  shows "position_objs (snd (check_order order cid s)) =
     (position_objs s)[a := (position_objs s ! a)
        \<lparr>Position.quantity := Position.quantity (position_objs s ! a) + signed_quantity order\<rparr>]"
proof -
  define s2 where "s2 = emit RISK_CHECK_STARTED cid (Order.order_id order)
      [(''order'', PyStr (Order.order_id order))] (Some (Order.user_id order))
      (reset_daily_volume_if_needed s)"
  have p2: "positions s2 = positions s" "position_objs s2 = position_objs s"
    by (simp_all add: s2_def positions_emit positions_reset position_objs_emit position_objs_reset)
  have c2: "config s2 = config s"
    by (simp add: s2_def config_emit config_reset)
  have "position_objs (snd (check_order order cid s)) =
      position_objs (snd (calculate_projected_positions order s2))"
    using ks
    by (simp add: check_order_def Let_def split_beta s2_def [symmetric] c2 position_objs_emit)
  also have "\<dots> = (position_objs s)[a := (position_objs s ! a)
        \<lparr>Position.quantity := Position.quantity (position_objs s ! a) + signed_quantity order\<rparr>]"
    using position_objs_projected_held [of s2 order a] held by (simp add: p2)
  finally show ?thesis .
qed

text \<open>
  C1: \<open>check_order\<close> is claimed to leave the engine's positions as they are. The
  dictionary keeps its entries (\<open>positions_check_order\<close>), but the copy made by the
  projection shares the \<^verbatim>\<open>Position\<close> objects, and the projected quantity is
  written into the object that the engine holds (\<open>check_order_writes_through\<close>).
  At a book holding 100 AAPL, checking a BUY of 10 AAPL leaves the engine holding 110.
\<close>

theorem check_order_mutates_position:
  "position_of demo_system_long ''AAPL'' =
     Some \<lparr>Position.symbol = ''AAPL'', Position.quantity = 100, average_price = 150,
            realized_pnl = 0\<rparr>
   \<and> position_of (snd (check_order demo_order ''c1'' demo_system_long)) ''AAPL'' =
     Some \<lparr>Position.symbol = ''AAPL'', Position.quantity = 110, average_price = 150,
            realized_pnl = 0\<rparr>"
proof -
  have k: "\<not> kill_switch_enabled (config demo_system_long)"
    by (simp add: config_demo_system_long kill_switch_demo_system)
  have h: "dict_get (positions demo_system_long) (Order.symbol demo_order) = Some 0"
    by (simp add: dict_get_def demo_system_long_def demo_order_def)
  have q: "signed_quantity demo_order = 10"
    by (simp add: signed_quantity_def demo_order_def)
  have o: "position_objs demo_system_long =
      [\<lparr>Position.symbol = ''AAPL'', Position.quantity = 100, average_price = 150,
        realized_pnl = 0\<rparr>]"
    "positions demo_system_long = [(''AAPL'', 0)]"
    by (simp_all add: demo_system_long_def)
  show ?thesis
    using check_order_writes_through [OF k h, of "''c1''"]
    by (simp add: position_of_def positions_check_order dict_get_def o q)
qed

lemma events_by_order_emit:
  "events_by_order (emit t c oid pl u s) =
     defaultdict_append oid
       \<lparr>event_id = uuids s (uuid_draws s), event_type = t, Event.correlation_id = c,
         Event.order_id = oid, Event.timestamp = clock s (clock_reads s), payload = pl,
         Event.user_id = u\<rparr> (events_by_order s)"
  by (simp add: emit_def event_store_append_def uuid4_def utcnow_def)

lemma events_by_order_reset:
  "events_by_order (reset_daily_volume_if_needed s) = events_by_order s"
  by (simp add: reset_daily_volume_if_needed_def utcnow_def)

lemma check_order_halted:
  assumes "kill_switch_enabled (config s)"
  shows "snd (check_order order cid s) =
     emit RISK_CHECK_STARTED cid (Order.order_id order)
       [(''order'', PyStr (Order.order_id order))] (Some (Order.user_id order))
       (reset_daily_volume_if_needed s)"
  using assms by (simp add: check_order_def Let_def config_emit config_reset)

text \<open>
  C2: every \<open>RISK_CHECK_STARTED\<close> is claimed to be followed by one result event, the
  kill switch included. With the kill switch enabled \<open>check_order\<close> returns before
  the result event is appended: the order's trail holds one \<open>RISK_CHECK_STARTED\<close> and
  neither \<open>RISK_CHECK_PASSED\<close> nor \<open>RISK_CHECK_FAILED\<close>.
\<close>

theorem kill_switch_no_result_event:
  "kill_switch_enabled (config demo_system_halted)
   \<and> map event_type (get_by_order (Order.order_id demo_order)
         (snd (check_order demo_order ''c1'' demo_system_halted))) = [RISK_CHECK_STARTED]
   \<and> length (filter (\<lambda>e. event_type e = RISK_CHECK_STARTED)
         (get_by_order (Order.order_id demo_order)
            (snd (check_order demo_order ''c1'' demo_system_halted)))) = 1
   \<and> length (filter (\<lambda>e. event_type e = RISK_CHECK_PASSED \<or> event_type e = RISK_CHECK_FAILED)
         (get_by_order (Order.order_id demo_order)
            (snd (check_order demo_order ''c1'' demo_system_halted)))) = 0"
proof -
  have h: "kill_switch_enabled (config demo_system_halted)"
    by (simp add: demo_system_halted_def demo_system_def initial_system_def)
  have e: "events_by_order demo_system_halted = []"
    by (simp add: demo_system_halted_def demo_system_def initial_system_def)
  show ?thesis
    using h
    by (simp add: check_order_halted [OF h] get_by_order_def events_by_order_emit
        events_by_order_reset e defaultdict_append_def dict_get_def)
qed

lemma update_position_clock:
  "daily_volume_reset (snd (update_position order s)) = daily_volume_reset s
   \<and> clock_reads (snd (update_position order s)) = clock_reads s
   \<and> clock (snd (update_position order s)) = clock s"
  by (simp add: update_position_def new_Position_def Let_def split_beta
      split: option.split)

lemma daily_volume_reset_new_day:
  "date (clock s (clock_reads s)) > date (daily_volume_reset s) \<Longrightarrow>
     daily_volume (reset_daily_volume_if_needed s) = 0"
  by (simp add: reset_daily_volume_if_needed_def utcnow_def)

lemma daily_volume_projected:
  "daily_volume (snd (calculate_projected_positions order s)) = daily_volume s"
  by (simp add: calculate_projected_positions_def new_Position_def Let_def split: option.split)

lemma daily_volume_check_order:
  "daily_volume (snd (check_order order cid s)) = daily_volume (reset_daily_volume_if_needed s)"
  by (simp add: check_order_def Let_def split_beta daily_volume_emit daily_volume_projected)

lemma daily_volume_get_metrics:
  "daily_volume (snd (get_metrics s)) = daily_volume (reset_daily_volume_if_needed s)"
  by (simp add: get_metrics_def Let_def)

text \<open>
  C8: the daily volume is claimed to reset at the first operation of a new UTC day,
  \<open>update_position\<close> included. \<open>update_position\<close> never reads the clock
  (\<open>update_position_clock\<close>): one day after the reset marker it adds the fill to the
  previous day's 500, giving 2000, where \<open>get_metrics\<close> in the same state resets to 0;
  the next \<open>check_order\<close> of that day then drops the volume to 0.
\<close>

theorem update_position_skips_daily_reset:
  "date (clock demo_system_next_day (clock_reads demo_system_next_day))
     > date (daily_volume_reset demo_system_next_day)
   \<and> daily_volume demo_system_next_day = 500
   \<and> fst (update_position demo_filled_order demo_system_next_day) = Inr ()
   \<and> daily_volume (snd (update_position demo_filled_order demo_system_next_day)) = 2000
   \<and> daily_volume_reset (snd (update_position demo_filled_order demo_system_next_day)) =
       daily_volume_reset demo_system_next_day
   \<and> daily_volume (snd (get_metrics demo_system_next_day)) = 0
   \<and> daily_volume (snd (check_order demo_order ''c1''
        (snd (update_position demo_filled_order demo_system_next_day)))) = 0"
proof -
  have c: "date (clock demo_system_next_day (clock_reads demo_system_next_day))
      > date (daily_volume_reset demo_system_next_day)"
    by (simp add: demo_system_next_day_def demo_system_def initial_system_def date_def)
  have v: "daily_volume demo_system_next_day = 500"
    by (simp add: demo_system_next_day_def)
  have wf: "wf_positions demo_system_next_day"
    by (simp add: wf_positions_def demo_system_next_day_def demo_system_def initial_system_def)
  have e: "executed_price demo_filled_order = Some 151"
    by (simp add: demo_filled_order_def)
  have o: "Order.quantity demo_filled_order = 10" "Order.price demo_filled_order = 150"
    by (simp_all add: demo_filled_order_def demo_order_def)
  note u = update_position_result [OF wf e]
  have c': "date (clock (snd (update_position demo_filled_order demo_system_next_day))
                (clock_reads (snd (update_position demo_filled_order demo_system_next_day))))
      > date (daily_volume_reset (snd (update_position demo_filled_order demo_system_next_day)))"
    using c by (simp add: update_position_clock)
  show ?thesis
    using c u
    by (simp add: v o update_position_clock daily_volume_get_metrics daily_volume_check_order
        daily_volume_reset_new_day [OF c] daily_volume_reset_new_day [OF c'])
qed

section \<open>Rejection message\<close>

lemma demo_big_order_violations:
  "violations (fst (check_order demo_big_order ''c1'' demo_system_long)) =
     [POSITION_LIMIT, DAILY_VOLUME_LIMIT]"
proof -
  have k: "\<not> kill_switch_enabled (config demo_system_long)"
    by (simp add: config_demo_system_long kill_switch_demo_system)
  have n: "notional_value demo_big_order = 12500000"
    by (simp add: notional_value_def demo_big_order_def demo_order_def)
  have d: "daily_volume (reset_daily_volume_if_needed demo_system_long) = 0"
    by (simp add: reset_daily_volume_if_needed_def utcnow_def demo_system_long_def
        demo_system_def initial_system_def date_def)
  have p: "projected_pairs demo_big_order demo_system_long = [(100, 150), (50000, 0)]"
    by (simp add: projected_pairs_def demo_system_long_def demo_system_def initial_system_def
        demo_big_order_def demo_order_def signed_quantity_def dict_get_def)
  have c: "config demo_system_long =
      \<lparr>max_position_size = 1000000, max_daily_volume = 10000000, max_net_exposure = 5000000,
       max_gross_exposure = 15000000, kill_switch_enabled = False\<rparr>"
    by (simp add: demo_system_long_def demo_system_def initial_system_def
        DEFAULT_MAX_POSITION_SIZE_def DEFAULT_MAX_DAILY_VOLUME_def DEFAULT_MAX_NET_EXPOSURE_def
        DEFAULT_MAX_GROSS_EXPOSURE_def)
  show ?thesis
    using check_order_violations [OF wf_demo_system_long k, of demo_big_order "''c1''"]
    by (simp add: n d c projected_net_def projected_gross_def p)
qed

text \<open>
  C9, as stated: the message of a failed check would be the violation names joined
  with a comma and a space. For an order over the position and daily volume limits the
  message is the joined names behind the prefix \<open>Risk violations: \<close>.
\<close>

theorem risk_message_counterexample:
  "\<not> kill_switch_enabled (config demo_system_long)
   \<and> \<not> passed (fst (check_order demo_big_order ''c1'' demo_system_long))
   \<and> RiskCheckResult.message (fst (check_order demo_big_order ''c1'' demo_system_long)) =
       ''Risk violations: POSITION_LIMIT, DAILY_VOLUME_LIMIT''
   \<and> join '', '' (map RiskViolationType_value
         (violations (fst (check_order demo_big_order ''c1'' demo_system_long)))) =
       ''POSITION_LIMIT, DAILY_VOLUME_LIMIT''
   \<and> RiskCheckResult.message (fst (check_order demo_big_order ''c1'' demo_system_long)) \<noteq>
       join '', '' (map RiskViolationType_value
         (violations (fst (check_order demo_big_order ''c1'' demo_system_long))))"
proof -
  have k: "\<not> kill_switch_enabled (config demo_system_long)"
    by (simp add: config_demo_system_long kill_switch_demo_system)
  have p: "\<not> passed (fst (check_order demo_big_order ''c1'' demo_system_long))"
    by (simp add: check_order_passed [OF k] demo_big_order_violations)
  show ?thesis
    using k p by (simp add: check_order_message [OF k p] demo_big_order_violations)
qed

lemma risk_check_point_frame:
  "risk_check_point request uid s = (a, c, s8) \<Longrightarrow>
     config s8 = config s \<and> a = length (order_objs s) \<and>
     length (order_objs s8) = Suc (length (order_objs s)) \<and> c = uuids s (uuid_draws s)"
  by (auto simp: risk_check_point_def Let_def split_beta uuid4_def utcnow_def order_update_def
      config_emit order_objs_emit)

text \<open>
  C9, amended: with the kill switch off, the message of a failed check is
  \<open>Risk violations: \<close> followed by the violation names joined with a comma and a
  space; a submission answered \<open>REJECTED\<close> carries that message of its risk check,
  and the stored order's \<open>rejection_reason\<close> is the same.
\<close>

theorem risk_rejection_message:
  assumes ks: "\<not> kill_switch_enabled (config s)"
  shows "(\<not> passed (fst (check_order order cid s)) \<longrightarrow>
            RiskCheckResult.message (fst (check_order order cid s)) =
              ''Risk violations: '' @
                join '', '' (map RiskViolationType_value (violations (fst (check_order order cid s)))))
     \<and> (\<forall>a c s8 resp s'.
           risk_check_point request uid s = (a, c, s8)
           \<and> submit_order request uid s = (Inr resp, s')
           \<and> OrderResponse.status resp = REJECTED \<longrightarrow>
             OrderResponse.message resp =
               Some (''Risk violations: '' @
                 join '', '' (map RiskViolationType_value
                   (violations (fst (check_order (order_objs s8 ! a) c s8)))))
             \<and> rejection_reason (order_objs s' ! a) = OrderResponse.message resp)"
proof (intro conjI impI allI)
  assume "\<not> passed (fst (check_order order cid s))"
  then show "RiskCheckResult.message (fst (check_order order cid s)) =
      ''Risk violations: '' @
        join '', '' (map RiskViolationType_value (violations (fst (check_order order cid s))))"
    by (rule check_order_message [OF ks])
next
  fix a c s8 resp s'
  assume h: "risk_check_point request uid s = (a, c, s8)
           \<and> submit_order request uid s = (Inr resp, s')
           \<and> OrderResponse.status resp = REJECTED"
  then have rcp: "risk_check_point request uid s = (a, c, s8)"
    and sub: "submit_order request uid s = (Inr resp, s')"
    and rej: "OrderResponse.status resp = REJECTED" by simp_all
  note f = risk_check_point_frame [OF rcp]
  have k8: "\<not> kill_switch_enabled (config s8)" using ks f by simp
  have fresh: "generate_execution_key request uid s \<notin> execution_keys s"
  proof
    assume "generate_execution_key request uid s \<in> execution_keys s"
    moreover have "generate_execution_key request uid (s\<lparr>uuid_draws := Suc (Suc (uuid_draws s))\<rparr>)
        = generate_execution_key request uid s"
      by (simp add: generate_execution_key_def)
    ultimately have "fst (submit_order request uid s) =
        Inl (HTTPException 409 ''Duplicate order submission detected'')"
      by (simp add: submit_order_def uuid4_def Let_def split_beta)
    with sub show False by simp
  qed
  obtain rr s9 where co: "check_order (order_objs s8 ! a) c s8 = (rr, s9)"
    by (cases "check_order (order_objs s8 ! a) c s8")
  have o9: "order_objs s9 = order_objs s8"
    using order_objs_check_order [of "order_objs s8 ! a" c s8] co by simp
  have np: "\<not> passed rr"
    using sub rej
    by (auto simp: submit_order_after_check [OF fresh] rcp co Let_def split_beta utcnow_def
        split: if_splits)
  have m: "RiskCheckResult.message rr =
      ''Risk violations: '' @ join '', '' (map RiskViolationType_value (violations rr))"
    using check_order_message [OF k8, of "order_objs s8 ! a" c] np co by simp
  have al: "a < length (order_objs s9)" using f o9 by simp
  show "OrderResponse.message resp =
               Some (''Risk violations: '' @
                 join '', '' (map RiskViolationType_value
                   (violations (fst (check_order (order_objs s8 ! a) c s8)))))"
    using sub np m
    by (auto simp: submit_order_after_check [OF fresh] rcp co Let_def split_beta utcnow_def)
  show "rejection_reason (order_objs s' ! a) = OrderResponse.message resp"
    using sub np al
    by (auto simp: submit_order_after_check [OF fresh] rcp co Let_def split_beta utcnow_def
        order_update_def)
qed

lemma risk_check_point_risk_state:
  "risk_check_point request uid s = (a, c, s8) \<Longrightarrow>
     positions s8 = positions s \<and> position_objs s8 = position_objs s \<and>
     daily_volume s8 = daily_volume s"
  by (auto simp: risk_check_point_def Let_def split_beta uuid4_def utcnow_def order_update_def
      positions_emit position_objs_emit daily_volume_emit)

lemma risk_check_point_order:
  "risk_check_point request uid s = (a, c, s8) \<Longrightarrow>
     Order.symbol (order_objs s8 ! a) = OrderRequest.symbol request \<and>
     Order.side (order_objs s8 ! a) = OrderRequest.side request \<and>
     Order.quantity (order_objs s8 ! a) = OrderRequest.quantity request \<and>
     Order.price (order_objs s8 ! a) = OrderRequest.price request \<and>
     Order.user_id (order_objs s8 ! a) = uid \<and>
     Order.client_order_id (order_objs s8 ! a) = OrderRequest.client_order_id request"
  by (auto simp: risk_check_point_def Let_def split_beta uuid4_def utcnow_def order_update_def
      order_objs_emit)

lemma daily_volume_reset_zero:
  "daily_volume s = 0 \<Longrightarrow> daily_volume (reset_daily_volume_if_needed s) = 0"
  by (simp add: reset_daily_volume_if_needed_def utcnow_def)

lemma flat_book_violations:
  assumes "positions s = []" and "daily_volume s = 0"
    and "config s = \<lparr>max_position_size = 1000000, max_daily_volume = 10000000,
           max_net_exposure = 5000000, max_gross_exposure = 15000000,
           kill_switch_enabled = False\<rparr>"
    and "notional_value order = 12500000"
  shows "violations (fst (check_order order cid s)) = [POSITION_LIMIT, DAILY_VOLUME_LIMIT]"
proof -
  have wf: "wf_positions s" using assms(1) by (simp add: wf_positions_def)
  have k: "\<not> kill_switch_enabled (config s)" using assms(3) by simp
  have p: "projected_pairs order s = [(signed_quantity order, 0)]"
    using assms(1) by (simp add: projected_pairs_def dict_get_def)
  show ?thesis
    using check_order_violations [OF wf k, of order cid]
    by (simp add: assms(3,4) daily_volume_reset_zero [OF assms(2)] projected_net_def
        projected_gross_def p)
qed

lemma config_demo_system:
  "config demo_system = \<lparr>max_position_size = 1000000, max_daily_volume = 10000000,
           max_net_exposure = 5000000, max_gross_exposure = 15000000,
           kill_switch_enabled = False\<rparr>"
  by (simp add: demo_system_def initial_system_def
        DEFAULT_MAX_POSITION_SIZE_def DEFAULT_MAX_DAILY_VOLUME_def DEFAULT_MAX_NET_EXPOSURE_def
        DEFAULT_MAX_GROSS_EXPOSURE_def)

theorem risk_rejection_message_witness:
  "\<not> kill_switch_enabled (config demo_system)
   \<and> \<not> passed (fst (check_order demo_big_order ''c1'' demo_system))
   \<and> RiskCheckResult.message (fst (check_order demo_big_order ''c1'' demo_system)) =
       ''Risk violations: POSITION_LIMIT, DAILY_VOLUME_LIMIT''
   \<and> map_sum id OrderResponse.status (fst (submit_order demo_big_request ''t'' demo_system)) =
       Inr REJECTED
   \<and> map_sum id OrderResponse.message (fst (submit_order demo_big_request ''t'' demo_system)) =
       Inr (Some ''Risk violations: POSITION_LIMIT, DAILY_VOLUME_LIMIT'')"
proof -
  note ks = kill_switch_demo_system
  have ps: "positions demo_system = []" "daily_volume demo_system = 0"
    "execution_keys demo_system = {}"
    by (simp_all add: demo_system_def initial_system_def)
  have n: "notional_value demo_big_order = 12500000"
    by (simp add: notional_value_def demo_big_order_def demo_order_def)
  have v1: "violations (fst (check_order demo_big_order ''c1'' demo_system)) =
      [POSITION_LIMIT, DAILY_VOLUME_LIMIT]"
    by (rule flat_book_violations [OF ps(1,2) config_demo_system n])
  then have np1: "\<not> passed (fst (check_order demo_big_order ''c1'' demo_system))"
    by (simp add: check_order_passed [OF ks])
  obtain a c s8 where rcp: "risk_check_point demo_big_request ''t'' demo_system = (a, c, s8)"
    by (cases "risk_check_point demo_big_request ''t'' demo_system")
  note f = risk_check_point_frame [OF rcp] and g = risk_check_point_risk_state [OF rcp]
    and o = risk_check_point_order [OF rcp]
  have n8: "notional_value (order_objs s8 ! a) = 12500000"
    by (simp add: notional_value_def o demo_big_request_def)
  have v8: "violations (fst (check_order (order_objs s8 ! a) c s8)) =
      [POSITION_LIMIT, DAILY_VOLUME_LIMIT]"
  proof (rule flat_book_violations)
    show "positions s8 = []" "daily_volume s8 = 0" using g ps by simp_all
    show "config s8 = \<lparr>max_position_size = 1000000, max_daily_volume = 10000000,
           max_net_exposure = 5000000, max_gross_exposure = 15000000,
           kill_switch_enabled = False\<rparr>"
      using f config_demo_system by simp
    show "notional_value (order_objs s8 ! a) = 12500000" by (rule n8)
  qed
  have k8: "\<not> kill_switch_enabled (config s8)" using ks f by simp
  have np8: "\<not> passed (fst (check_order (order_objs s8 ! a) c s8))"
    by (simp add: check_order_passed [OF k8] v8)
  have fresh: "generate_execution_key demo_big_request ''t'' demo_system
      \<notin> execution_keys demo_system"
    by (simp add: ps)
  obtain resp s' where sub: "submit_order demo_big_request ''t'' demo_system = (Inr resp, s')"
    and rej: "OrderResponse.status resp = REJECTED"
    using np8
    by (auto simp: submit_order_after_check [OF fresh] rcp Let_def split_beta utcnow_def)
  from risk_rejection_message [OF ks, of demo_big_order "''c1''" demo_big_request "''t''"]
    np1 rcp sub rej
  show ?thesis
    using ks by (simp add: v1 v8)
qed

section \<open>Circuit breaker\<close>

lemma update_position_ok:
  "executed_price order = Some ep \<Longrightarrow> fst (update_position order s) = Inr ()"
  by (simp add: update_position_def Let_def split_beta)

lemma breaker_emit:
  "circuit_breaker_failures (emit t c oid pl u s) = circuit_breaker_failures s"
  "circuit_breaker_open_until (emit t c oid pl u s) = circuit_breaker_open_until s"
  by (simp_all add: emit_def event_store_append_def uuid4_def utcnow_def)

lemma breaker_order_update:
  "circuit_breaker_failures (order_update a f s) = circuit_breaker_failures s"
  "circuit_breaker_open_until (order_update a f s) = circuit_breaker_open_until s"
  by (simp_all add: order_update_def)

lemma breaker_update_position:
  "circuit_breaker_failures (snd (update_position order s)) = circuit_breaker_failures s"
  "circuit_breaker_open_until (snd (update_position order s)) = circuit_breaker_open_until s"
  by (simp_all add: update_position_def new_Position_def Let_def split_beta split: option.split)

lemma breaker_try_attempt:
  "circuit_breaker_failures (snd (try_attempt k a s)) = circuit_breaker_failures s"
  "circuit_breaker_open_until (snd (try_attempt k a s)) = circuit_breaker_open_until s"
  by (simp_all add: try_attempt_def Let_def split_beta random_random_def random_uniform_def
      breaker_emit breaker_order_update breaker_update_position split: sum.split)

lemma order_objs_order_update:
  "order_objs (order_update a f s) = (order_objs s)[a := f (order_objs s ! a)]"
  by (simp add: order_update_def)

lemma try_attempt_fail:
  "\<not> randoms s (random_draws s) < 0.9 \<Longrightarrow>
     try_attempt k a s =
       (Some (Exception ''Simulated market rejection''), s\<lparr>random_draws := Suc (random_draws s)\<rparr>)"
  by (simp add: try_attempt_def random_random_def)

lemma update_position_ok':
  "executed_price order \<noteq> None \<Longrightarrow> fst (update_position order s) = Inr ()"
  using update_position_ok by auto

lemma try_attempt_success:
  assumes "randoms s (random_draws s) < 0.9" and "a < length (order_objs s)"
  shows "fst (try_attempt k a s) = None"
  using assms
  by (simp add: try_attempt_def random_random_def random_uniform_def Let_def split_beta
      update_position_ok' order_update_def)

lemma final_failure_breaker:
  "circuit_breaker_failures (final_failure a s) = circuit_breaker_failures s + 1"
  "circuit_breaker_open_until (final_failure a s) =
     (if circuit_breaker_failures s + 1 \<ge> CIRCUIT_BREAKER_THRESHOLD
      then Some (clock s (clock_reads s) + timedelta CIRCUIT_BREAKER_TIMEOUT)
      else circuit_breaker_open_until s)"
  by (simp_all add: final_failure_def Let_def split_beta breaker_emit breaker_order_update
      utcnow_def order_update_def)

lemma failed_step_frame:
  "randoms (failed_step a s) = randoms s"
  "random_draws (failed_step a s) = Suc (random_draws s)"
  "clock (failed_step a s) = clock s"
  "clock_reads (failed_step a s) = clock_reads s"
  "circuit_breaker_failures (failed_step a s) = circuit_breaker_failures s"
  "circuit_breaker_open_until (failed_step a s) = circuit_breaker_open_until s"
  "length (order_objs (failed_step a s)) = length (order_objs s)"
  "events (failed_step a s) = events s"
  by (simp_all add: failed_step_def order_update_def)

lemma attempts_list: "[0..<MAX_RETRY_ATTEMPTS] = [0, 1, 2]"
  by (simp add: MAX_RETRY_ATTEMPTS_def upt_rec)

lemma retry_loop_step_fail:
  assumes "\<not> randoms s (random_draws s) < 0.9"
  shows "retry_loop (k # rest) a s =
     retry_loop rest a
       (if k < MAX_RETRY_ATTEMPTS - 1 then failed_step a s
        else final_failure a (failed_step a s))"
  by (simp add: try_attempt_fail [OF assms] failed_step_def Let_def)

lemma retry_loop_step_success:
  assumes "randoms s (random_draws s) < 0.9" and "a < length (order_objs s)"
  shows "retry_loop (k # rest) a s = snd (try_attempt k a s)"
  using try_attempt_success [OF assms, of k]
  by (cases "try_attempt k a s") simp

lemma retry_loop_breaker:
  assumes len: "a < length (order_objs s)"
  shows "circuit_breaker_failures (retry_loop [0, 1, 2] a s) =
      (if all_attempts_fail s then circuit_breaker_failures s + 1 else circuit_breaker_failures s)"
    and "circuit_breaker_open_until (retry_loop [0, 1, 2] a s) =
      (if all_attempts_fail s \<and> circuit_breaker_failures s + 1 \<ge> CIRCUIT_BREAKER_THRESHOLD
       then Some (clock s (clock_reads s) + timedelta CIRCUIT_BREAKER_TIMEOUT)
       else circuit_breaker_open_until s)"
proof -
  let ?s1 = "failed_step a s" and ?s2 = "failed_step a (failed_step a s)"
  let ?s3 = "failed_step a (failed_step a (failed_step a s))"
  have l1: "a < length (order_objs ?s1)" and l2: "a < length (order_objs ?s2)"
    using len by (simp_all add: failed_step_frame)
  have r1: "randoms ?s1 (random_draws ?s1) = randoms s (random_draws s + 1)"
    and r2: "randoms ?s2 (random_draws ?s2) = randoms s (random_draws s + 2)"
    by (simp_all add: failed_step_frame)
  consider (ok0) "randoms s (random_draws s) < 0.9"
    | (ok1) "\<not> randoms s (random_draws s) < 0.9" "randoms s (random_draws s + 1) < 0.9"
    | (ok2) "\<not> randoms s (random_draws s) < 0.9" "\<not> randoms s (random_draws s + 1) < 0.9"
        "randoms s (random_draws s + 2) < 0.9"
    | (none) "all_attempts_fail s"
    by (auto simp: all_attempts_fail_def)
  then have "circuit_breaker_failures (retry_loop [0, 1, 2] a s) =
      (if all_attempts_fail s then circuit_breaker_failures s + 1 else circuit_breaker_failures s)
    \<and> circuit_breaker_open_until (retry_loop [0, 1, 2] a s) =
      (if all_attempts_fail s \<and> circuit_breaker_failures s + 1 \<ge> CIRCUIT_BREAKER_THRESHOLD
       then Some (clock s (clock_reads s) + timedelta CIRCUIT_BREAKER_TIMEOUT)
       else circuit_breaker_open_until s)"
  proof cases
    case ok0
    then have "\<not> all_attempts_fail s" by (simp add: all_attempts_fail_def)
    then show ?thesis
      unfolding retry_loop_step_success [OF ok0 len]
      by (simp add: breaker_try_attempt)
  next
    case ok1
    then have n: "\<not> all_attempts_fail s" by (simp add: all_attempts_fail_def)
    have e: "retry_loop [0, 1, 2] a s = snd (try_attempt 1 a ?s1)"
      using ok1 r1 l1
      by (simp add: retry_loop_step_fail MAX_RETRY_ATTEMPTS_def retry_loop_step_success
          del: retry_loop.simps(2))
    show ?thesis
      unfolding e using n by (simp add: breaker_try_attempt failed_step_frame)
  next
    case ok2
    then have n: "\<not> all_attempts_fail s" by (simp add: all_attempts_fail_def)
    have e: "retry_loop [0, 1, 2] a s = snd (try_attempt 2 a ?s2)"
      using ok2 r1 r2 l2
      by (simp add: retry_loop_step_fail MAX_RETRY_ATTEMPTS_def retry_loop_step_success
          del: retry_loop.simps(2))
    show ?thesis
      unfolding e using n by (simp add: breaker_try_attempt failed_step_frame)
  next
    case none
    then have f: "\<not> randoms s (random_draws s) < 0.9" "\<not> randoms s (random_draws s + 1) < 0.9"
      "\<not> randoms s (random_draws s + 2) < 0.9"
      by (simp_all add: all_attempts_fail_def)
    have e: "retry_loop [0, 1, 2] a s = final_failure a ?s3"
      using f r1 r2
      by (simp add: retry_loop_step_fail MAX_RETRY_ATTEMPTS_def del: retry_loop.simps(2))
    show ?thesis
      unfolding e using none by (simp add: final_failure_breaker failed_step_frame)
  qed
  then show "circuit_breaker_failures (retry_loop [0, 1, 2] a s) =
      (if all_attempts_fail s then circuit_breaker_failures s + 1 else circuit_breaker_failures s)"
    and "circuit_breaker_open_until (retry_loop [0, 1, 2] a s) =
      (if all_attempts_fail s \<and> circuit_breaker_failures s + 1 \<ge> CIRCUIT_BREAKER_THRESHOLD
       then Some (clock s (clock_reads s) + timedelta CIRCUIT_BREAKER_TIMEOUT)
       else circuit_breaker_open_until s)"
    by simp_all
qed

lemma execute_order_blocked:
  assumes "circuit_breaker_open_until s = Some until" and "clock s (clock_reads s) < until"
  shows "execute_order a s =
     order_update a
       (\<lambda>ob. ob\<lparr>Order.status := FAILED, rejection_reason := Some ''Circuit breaker open''\<rparr>)
       (s\<lparr>clock_reads := Suc (clock_reads s)\<rparr>)"
  using assms by (simp add: execute_order_def utcnow_def)

lemma execute_order_closed:
  assumes "circuit_breaker_open_until s = None"
  shows "execute_order a s =
     retry_loop [0, 1, 2] a
       (emit EXECUTION_STARTED
          (Order.correlation_id (order_objs (order_update a (\<lambda>ob. ob\<lparr>Order.status := EXECUTING\<rparr>) s) ! a))
          (Order.order_id (order_objs (order_update a (\<lambda>ob. ob\<lparr>Order.status := EXECUTING\<rparr>) s) ! a))
          [(''retry_attempt'', PyInt (int (retry_count
              (order_objs (order_update a (\<lambda>ob. ob\<lparr>Order.status := EXECUTING\<rparr>) s) ! a))))]
          (Some (Order.user_id (order_objs (order_update a (\<lambda>ob. ob\<lparr>Order.status := EXECUTING\<rparr>) s) ! a)))
          (order_update a (\<lambda>ob. ob\<lparr>Order.status := EXECUTING\<rparr>) s))"
  using assms by (simp add: execute_order_def Let_def attempts_list del: retry_loop.simps)

lemma execute_order_expired:
  assumes "circuit_breaker_open_until s = Some until" and "\<not> clock s (clock_reads s) < until"
  shows "execute_order a s = execute_order a (breaker_reset s)"
proof -
  have c: "circuit_breaker_open_until (breaker_reset s) = None"
    by (simp add: breaker_reset_def)
  show ?thesis
    unfolding execute_order_closed [OF c]
    using assms
    by (simp add: execute_order_def utcnow_def Let_def attempts_list breaker_reset_def
        del: retry_loop.simps)
qed

lemma emit_frame:
  "randoms (emit t c oid pl u s) = randoms s"
  "random_draws (emit t c oid pl u s) = random_draws s"
  "clock (emit t c oid pl u s) = clock s"
  "clock_reads (emit t c oid pl u s) = Suc (clock_reads s)"
  "order_objs (emit t c oid pl u s) = order_objs s"
  by (simp_all add: emit_def event_store_append_def uuid4_def utcnow_def)

lemma order_update_frame:
  "randoms (order_update a f s) = randoms s"
  "random_draws (order_update a f s) = random_draws s"
  "clock (order_update a f s) = clock s"
  "clock_reads (order_update a f s) = clock_reads s"
  "length (order_objs (order_update a f s)) = length (order_objs s)"
  "events (order_update a f s) = events s"
  "positions (order_update a f s) = positions s"
  "position_objs (order_update a f s) = position_objs s"
  by (simp_all add: order_update_def)

lemma all_attempts_fail_cong:
  "randoms s' = randoms s \<Longrightarrow> random_draws s' = random_draws s \<Longrightarrow>
     all_attempts_fail s' = all_attempts_fail s"
  by (simp add: all_attempts_fail_def)

lemma execute_order_breaker:
  assumes len: "a < length (order_objs s)" and closed: "circuit_breaker_open_until s = None"
  shows "circuit_breaker_failures (execute_order a s) =
      (if all_attempts_fail s then circuit_breaker_failures s + 1 else circuit_breaker_failures s)"
    and "circuit_breaker_open_until (execute_order a s) =
      (if all_attempts_fail s \<and> circuit_breaker_failures s + 1 \<ge> CIRCUIT_BREAKER_THRESHOLD
       then Some (clock s (Suc (clock_reads s)) + timedelta CIRCUIT_BREAKER_TIMEOUT)
       else None)"
proof -
  define s2 where "s2 = order_update a (\<lambda>ob. ob\<lparr>Order.status := EXECUTING\<rparr>) s"
  define s3 where "s3 = emit EXECUTION_STARTED (Order.correlation_id (order_objs s2 ! a))
      (Order.order_id (order_objs s2 ! a))
      [(''retry_attempt'', PyInt (int (retry_count (order_objs s2 ! a))))]
      (Some (Order.user_id (order_objs s2 ! a))) s2"
  have e: "execute_order a s = retry_loop [0, 1, 2] a s3"
    by (simp only: execute_order_closed [OF closed] s3_def s2_def)
  have l3: "a < length (order_objs s3)"
    using len by (simp add: s3_def s2_def emit_frame order_update_frame)
  have af: "all_attempts_fail s3 = all_attempts_fail s"
    by (rule all_attempts_fail_cong) (simp_all add: s3_def s2_def emit_frame order_update_frame)
  have b: "circuit_breaker_failures s3 = circuit_breaker_failures s"
    "circuit_breaker_open_until s3 = None"
    "clock s3 = clock s" "clock_reads s3 = Suc (clock_reads s)"
    using closed
    by (simp_all add: s3_def s2_def breaker_emit breaker_order_update emit_frame order_update_frame)
  show "circuit_breaker_failures (execute_order a s) =
      (if all_attempts_fail s then circuit_breaker_failures s + 1 else circuit_breaker_failures s)"
    unfolding e retry_loop_breaker(1) [OF l3] by (simp add: af b)
  show "circuit_breaker_open_until (execute_order a s) =
      (if all_attempts_fail s \<and> circuit_breaker_failures s + 1 \<ge> CIRCUIT_BREAKER_THRESHOLD
       then Some (clock s (Suc (clock_reads s)) + timedelta CIRCUIT_BREAKER_TIMEOUT)
       else None)"
    unfolding e retry_loop_breaker(2) [OF l3] by (simp add: af b)
qed








lemma breaker_closed_below_threshold:
  assumes len: "a < length (order_objs s)"
    and inv: "circuit_breaker_open_until s = None \<longrightarrow>
              circuit_breaker_failures s < CIRCUIT_BREAKER_THRESHOLD"
  shows "circuit_breaker_open_until (execute_order a s) = None \<longrightarrow>
           circuit_breaker_failures (execute_order a s) < CIRCUIT_BREAKER_THRESHOLD"
proof (cases "circuit_breaker_open_until s")
  case None
  with inv show ?thesis
    by (auto simp: execute_order_breaker [OF len None] split: if_splits)
next
  case (Some until)
  show ?thesis
  proof (cases "clock s (clock_reads s) < until")
    case True
    then show ?thesis
      by (simp add: execute_order_blocked [OF Some True] order_update_def Some)
  next
    case False
    have c: "circuit_breaker_open_until (breaker_reset s) = None"
      and z: "circuit_breaker_failures (breaker_reset s) = 0"
      and l: "a < length (order_objs (breaker_reset s))"
      using len by (simp_all add: breaker_reset_def)
    show ?thesis
      unfolding execute_order_expired [OF Some False]
      by (auto simp: execute_order_breaker [OF l c] z CIRCUIT_BREAKER_THRESHOLD_def
          split: if_splits)
  qed
qed

section \<open>Idempotent submission\<close>



lemma order_fingerprint_env:
  "sha256_hexdigest s' = sha256_hexdigest s \<Longrightarrow> float_str s' = float_str s \<Longrightarrow>
     order_fingerprint ob s' = order_fingerprint ob s"
  by (simp add: order_fingerprint_def generate_execution_key_def)


lemma same_orders_objs:
  assumes "orders s' = orders s" "order_objs s' = order_objs s"
    "execution_keys s' = execution_keys s" "uuids s' = uuids s" "uuid_draws s \<le> uuid_draws s'"
    "sha256_hexdigest s' = sha256_hexdigest s" "float_str s' = float_str s"
  shows "same_orders s s'"
  using assms order_fingerprint_env [OF assms(6,7)] by (simp add: same_orders_def)



lemma same_orders_projected: "same_orders s (snd (calculate_projected_positions order s))"
  by (rule same_orders_objs)
    (simp_all add: calculate_projected_positions_def new_Position_def Let_def split_beta
      split: option.split)












































section \<open>Invariants and the remaining halves\<close>

text \<open>
  The well-formedness assumed of the position state holds initially and is kept by the
  risk check and by settlement. With the kill switch off every check appends its
  \<open>RISK_CHECK_STARTED\<close> and one result event, passed iff no violation was found.
  Settlement of an order of non-negative notional never lowers the daily volume.
\<close>

lemma wf_positions_initial: "wf_positions (initial_system clk us rs sha fmt)"
  by (simp add: wf_positions_def initial_system_def)

lemma wf_positions_grow:
  assumes "wf_positions s" and "positions s' = positions s"
    and "length (position_objs s) \<le> length (position_objs s')"
  shows "wf_positions s'"
  using assms by (auto simp: wf_positions_def list_all_iff)

lemma length_position_objs_projected:
  "length (position_objs s) \<le> length (position_objs (snd (calculate_projected_positions order s)))"
  by (simp add: calculate_projected_positions_def new_Position_def Let_def split_beta
      split: option.split)

lemma wf_positions_check_order:
  assumes "wf_positions s"
  shows "wf_positions (snd (check_order order cid s))"
proof (rule wf_positions_grow [OF assms positions_check_order])
  have "position_objs (snd (check_order order cid s)) = position_objs s
      \<or> position_objs (snd (check_order order cid s)) =
         position_objs (snd (calculate_projected_positions order
           (emit RISK_CHECK_STARTED cid (Order.order_id order)
              [(''order'', PyStr (Order.order_id order))] (Some (Order.user_id order))
              (reset_daily_volume_if_needed s))))"
    by (simp add: check_order_def Let_def split_beta position_objs_emit position_objs_reset)
  then show "length (position_objs s) \<le> length (position_objs (snd (check_order order cid s)))"
    using length_position_objs_projected [of "emit RISK_CHECK_STARTED cid (Order.order_id order)
              [(''order'', PyStr (Order.order_id order))] (Some (Order.user_id order))
              (reset_daily_volume_if_needed s)" order]
    by (auto simp: position_objs_emit position_objs_reset)
qed

lemma wf_positions_update_position:
  assumes wf: "wf_positions s"
  shows "wf_positions (snd (update_position order s))"
proof (cases "dict_get (positions s) (Order.symbol order)")
  case None
  have fr: "Order.symbol order \<notin> set (map fst (positions s))"
    using None by (simp add: dict_get_def map_of_eq_None_iff)
  have in_range: "\<And>b. b \<in> set (map snd (positions s)) \<Longrightarrow> b < length (position_objs s)"
    using wf by (auto simp: wf_positions_def list_all_iff)
  then have nl: "length (position_objs s) \<notin> set (map snd (positions s))" by blast
  have p: "positions (snd (update_position order s)) =
      positions s @ [(Order.symbol order, length (position_objs s))]"
    and l: "length (position_objs (snd (update_position order s))) =
      Suc (length (position_objs s))"
    using None
    by (simp_all add: update_position_def new_Position_def Let_def split_beta dict_set_absent
        split: option.split)
  show ?thesis
    using wf fr nl in_range
    by (auto simp: wf_positions_def p l list_all_iff less_Suc_eq)
next
  case (Some a)
  have p: "positions (snd (update_position order s)) = positions s"
    and l: "length (position_objs (snd (update_position order s))) = length (position_objs s)"
    using Some
    by (simp_all add: update_position_def Let_def split_beta split: option.split)
  show ?thesis
    by (rule wf_positions_grow [OF wf p]) (simp add: l)
qed

lemma check_order_result_event:
  assumes "\<not> kill_switch_enabled (config s)"
  shows "map event_type (events (snd (check_order order cid s))) =
     map event_type (events s) @
       [RISK_CHECK_STARTED,
        if violations (fst (check_order order cid s)) = []
        then RISK_CHECK_PASSED else RISK_CHECK_FAILED]"
proof -
  have ep: "events (snd (calculate_projected_positions order s')) = events s'" for s'
    by (simp add: calculate_projected_positions_def new_Position_def Let_def split_beta
        split: option.split)
  show ?thesis
    using assms
    by (simp add: check_order_def Let_def split_beta config_emit config_reset events_emit
        events_reset ep)
qed

lemma daily_volume_update_position_mono:
  assumes "0 \<le> Order.quantity order * Order.price order"
  shows "daily_volume s \<le> daily_volume (snd (update_position order s))"
  using assms
  by (simp add: update_position_def new_Position_def Let_def split_beta notional_value_def
      split: option.split)

end
